theory Spec2Isabelle
  imports Complex_Main "HOL-Library.Sublist" "HOL-Library.Multiset"
begin

section \<open>Interactions (core/models/interaction.py)\<close>

text \<open>
  Python floats are modelled as exact rationals. The code compares, adds and multiplies
  them; the rounding of the floating-point sums and products (in the weight of the mana
  relationship and in the composite score of \<open>key_cards\<close>) is not modelled. Strings
  are \<open>string\<close>.
\<close>

datatype InteractionType =
    COMBOS_WITH | ENABLES | SYNERGY | PROTECTS | BUFFS | TUTORS | MANA_ENABLES
  | DRAWS_INTO | TRIBAL | TYPE_MATTERS | SACRIFICE_FODDER | SACRIFICE_OUTLET
  | COUNTER_SYNERGY | ETB_CHAIN | DEATH_CHAIN

text \<open>The \<open>.value\<close> of each member of the enum.\<close>

fun type_value :: "InteractionType \<Rightarrow> string" where
  "type_value COMBOS_WITH = ''combos_with''"
| "type_value ENABLES = ''enables''"
| "type_value SYNERGY = ''synergy''"
| "type_value PROTECTS = ''protects''"
| "type_value BUFFS = ''buffs''"
| "type_value TUTORS = ''tutors''"
| "type_value MANA_ENABLES = ''mana_enables''"
| "type_value DRAWS_INTO = ''draws_into''"
| "type_value TRIBAL = ''tribal''"
| "type_value TYPE_MATTERS = ''type_matters''"
| "type_value SACRIFICE_FODDER = ''sacrifice_fodder''"
| "type_value SACRIFICE_OUTLET = ''sacrifice_outlet''"
| "type_value COUNTER_SYNERGY = ''counter_synergy''"
| "type_value ETB_CHAIN = ''etb_chain''"
| "type_value DEATH_CHAIN = ''death_chain''"

record Interaction =
  source_id :: string
  target_id :: string
  interaction_type :: InteractionType
  weight :: rat
  description :: "string option"
  bidirectional :: bool

section \<open>The graph of a deck (core/graph/deck_graph.py)\<close>

subsection \<open>The networkx graph underneath\<close>

text \<open>
  The attribute dictionary of an edge. A key that the dictionary does not hold is
  \<open>None\<close>; the value of \<open>description\<close> may itself be Python's \<open>None\<close>.
\<close>

record edge_data =
  interaction_types :: "string list option"
  edge_weight :: "rat option"
  edge_description :: "string option option"

text \<open>The attributes \<open>_build_nodes\<close> gives a node.\<close>

record node_data =
  node_name :: string
  node_type_line :: string
  node_card_types :: "string list"
  node_cmc :: rat
  node_colors :: "string list"
  node_color_identity :: "string list"
  node_keywords :: "string list"
  node_quantity :: int
  node_category :: string
  node_image_uri :: string
  node_is_commander :: bool

text \<open>
  An undirected \<open>nx.Graph\<close>: the nodes in insertion order, each with its attribute
  dictionary (\<open>None\<close> is the empty dictionary of a node that \<open>add_edge\<close> created), and
  the adjacency \<open>_adj\<close>, a dictionary of dictionaries. networkx stores one attribute
  dictionary per edge and files the same object under \<open>_adj[u][v]\<close> and \<open>_adj[v][u]\<close>;
  here every write to an edge writes both entries.
\<close>

record nx_graph =
  nodes :: "(string \<times> node_data option) list"
  adj :: "string \<Rightarrow> string \<Rightarrow> edge_data option"

definition empty_graph :: nx_graph where
  "empty_graph = \<lparr>nodes = [], adj = (\<lambda>u v. None)\<rparr>"

definition node_ids :: "nx_graph \<Rightarrow> string list" where
  "node_ids g = map fst (nodes g)"

definition has_edge :: "nx_graph \<Rightarrow> string \<Rightarrow> string \<Rightarrow> bool" where
  "has_edge g u v = (adj g u v \<noteq> None)"

text \<open>Filing one attribute dictionary under both directions of an edge.\<close>

definition set_edge ::
  "(string \<Rightarrow> string \<Rightarrow> edge_data option) \<Rightarrow> string \<Rightarrow> string \<Rightarrow> edge_data
    \<Rightarrow> (string \<Rightarrow> string \<Rightarrow> edge_data option)" where
  "set_edge a u v d = (\<lambda>x y. if (x = u \<and> y = v) \<or> (x = v \<and> y = u) then Some d else a x y)"

definition ensure_node ::
  "string \<Rightarrow> (string \<times> node_data option) list \<Rightarrow> (string \<times> node_data option) list" where
  "ensure_node n ns = (if n \<in> set (map fst ns) then ns else ns @ [(n, None)])"

text \<open>
  \<open>Graph.add_edge(u, v, **attr)\<close>: both end points become nodes when they are not
  (\<open>u\<close> first), and the attributes are written over those of the edge's dictionary, a
  new one when there was no edge.
\<close>

definition add_edge ::
  "nx_graph \<Rightarrow> string \<Rightarrow> string \<Rightarrow> string list \<Rightarrow> rat \<Rightarrow> string option \<Rightarrow> nx_graph" where
  "add_edge g u v tys w descr =
     g\<lparr>nodes := ensure_node v (ensure_node u (nodes g)),
       adj := set_edge (adj g) u v
         \<lparr>interaction_types = Some tys, edge_weight = Some w, edge_description = Some descr\<rparr>\<rparr>"

subsection \<open>DeckGraph.add_interaction\<close>

text \<open>
  When the edge exists its dictionary is updated in place: the type is appended to the
  list under \<open>interaction_types\<close> (\<open>[]\<close> when the key is missing) and the weight becomes
  the larger of the old one (\<open>0\<close> when missing) and the new one. Otherwise
  \<open>add_edge\<close> makes the edge.
\<close>

definition add_interaction :: "nx_graph \<Rightarrow> Interaction \<Rightarrow> nx_graph" where
  "add_interaction g i =
     (case adj g (source_id i) (target_id i) of
        Some edge \<Rightarrow>
          (let types = (case interaction_types edge of None \<Rightarrow> [] | Some ts \<Rightarrow> ts);
               types' = types @ [type_value (interaction_type i)];
               w = max (case edge_weight edge of None \<Rightarrow> 0 | Some x \<Rightarrow> x) (weight i)
           in g\<lparr>adj := set_edge (adj g) (source_id i) (target_id i)
                  (edge\<lparr>interaction_types := Some types', edge_weight := Some w\<rparr>)\<rparr>)
      | None \<Rightarrow>
          add_edge g (source_id i) (target_id i)
            [type_value (interaction_type i)] (weight i) (description i))"

text \<open>
  The loop over the interactions, in order, that \<open>detect_interactions\<close> holds
  (deck_graph.py, lines 70 and 71). That method is not modelled beyond this loop: its
  line 64 begins with a stray character, \<open>s        detector = InteractionDetector()\<close>,
  and does not parse as it stands.
\<close>

definition ingest :: "nx_graph \<Rightarrow> Interaction list \<Rightarrow> nx_graph" where
  "ingest g xs = foldl add_interaction g xs"

section \<open>Strings and patterns\<close>

text \<open>
  A Python \<open>str\<close> is modelled by its UTF-8 bytes. Python's \<open>needle in text\<close> is
  \<^const>\<open>sublist\<close>. Case mapping, white space and digits are those of the ASCII range; a
  letter, a space or a digit outside it is an ordinary character.
\<close>

definition py_in :: "string \<Rightarrow> string \<Rightarrow> bool" where
  "py_in needle text = sublist needle text"

definition lower_char :: "char \<Rightarrow> char" where
  "lower_char c =
     (case map_of (zip ''ABCDEFGHIJKLMNOPQRSTUVWXYZ'' ''abcdefghijklmnopqrstuvwxyz'') c of
        Some l \<Rightarrow> l | None \<Rightarrow> c)"

definition upper_char :: "char \<Rightarrow> char" where
  "upper_char c =
     (case map_of (zip ''abcdefghijklmnopqrstuvwxyz'' ''ABCDEFGHIJKLMNOPQRSTUVWXYZ'') c of
        Some u \<Rightarrow> u | None \<Rightarrow> c)"

definition py_lower :: "string \<Rightarrow> string" where
  "py_lower s = map lower_char s"

definition py_capitalize :: "string \<Rightarrow> string" where
  "py_capitalize s = (case s of [] \<Rightarrow> [] | c # cs \<Rightarrow> upper_char c # map lower_char cs)"

definition is_space :: "char \<Rightarrow> bool" where
  "is_space c = (c \<in> set [CHR 0x09, CHR 0x0A, CHR 0x0B, CHR 0x0C, CHR 0x0D,
                           CHR 0x1C, CHR 0x1D, CHR 0x1E, CHR 0x1F, CHR 0x20])"

definition is_digit :: "char \<Rightarrow> bool" where
  "is_digit c = (c \<in> set ''0123456789'')"

definition py_strip :: "string \<Rightarrow> string" where
  "py_strip s = rev (dropWhile is_space (rev (dropWhile is_space s)))"

text \<open>\<open>str.split()\<close> without a separator: the maximal runs of characters that are not spaces.\<close>

fun split_ws :: "string \<Rightarrow> string \<Rightarrow> string list" where
  "split_ws cur [] = (if cur = [] then [] else [rev cur])"
| "split_ws cur (c # cs) =
     (if is_space c then (if cur = [] then split_ws [] cs else rev cur # split_ws [] cs)
      else split_ws (c # cur) cs)"

definition py_split :: "string \<Rightarrow> string list" where
  "py_split s = split_ws [] s"

text \<open>
  \<open>text.split(sep)[1]\<close>, the part between the first and the second occurrence of
  \<open>sep\<close>: \<open>after_sep\<close> is what follows the first occurrence, when there is one, and
  \<open>before_sep\<close> what precedes it.
\<close>

fun after_sep :: "string \<Rightarrow> string \<Rightarrow> string option" where
  "after_sep sep [] = (if sep = [] then Some [] else None)"
| "after_sep sep (c # cs) =
     (if prefix sep (c # cs) then Some (drop (length sep) (c # cs)) else after_sep sep cs)"

fun before_sep :: "string \<Rightarrow> string \<Rightarrow> string" where
  "before_sep sep [] = []"
| "before_sep sep (c # cs) = (if prefix sep (c # cs) then [] else c # before_sep sep cs)"

fun py_join :: "string \<Rightarrow> string list \<Rightarrow> string" where
  "py_join sep [] = []"
| "py_join sep [x] = x"
| "py_join sep (x # y # ys) = x @ sep @ py_join sep (y # ys)"

text \<open>
  The regular expressions of the source are sequences of single characters drawn from a
  class and of starred classes (\<open>.*\<close>; \<open>\s+\<close> is a space followed by starred spaces).
  \<open>re.search(p, text)\<close> finds a match exactly when some part of the text, starting
  anywhere, is in the language of \<open>p\<close>; \<open>match_here\<close> decides it for a part that starts
  at the front.
\<close>

datatype atom = Ch "char \<Rightarrow> bool" | Star "char \<Rightarrow> bool"

fun match_here :: "atom list \<Rightarrow> string \<Rightarrow> bool" where
  "match_here [] s = True"
| "match_here (Ch c # p) [] = False"
| "match_here (Ch c # p) (x # xs) = (c x \<and> match_here p xs)"
| "match_here (Star c # p) [] = match_here p []"
| "match_here (Star c # p) (x # xs) =
     (match_here p (x # xs) \<or> (c x \<and> match_here (Star c # p) xs))"

fun re_search :: "atom list \<Rightarrow> string \<Rightarrow> bool" where
  "re_search p [] = match_here p []"
| "re_search p (x # xs) = (match_here p (x # xs) \<or> re_search p xs)"

definition lit :: "string \<Rightarrow> atom list" where
  "lit s = map (\<lambda>c. Ch (\<lambda>x. x = c)) s"

definition cls :: "string \<Rightarrow> atom" where
  "cls s = Ch (\<lambda>x. x \<in> set s)"

text \<open>\<open>.*\<close>: the dot matches every character but the line feed.\<close>

definition dot_star :: atom where
  "dot_star = Star (\<lambda>x. x \<noteq> CHR 0x0A)"

text \<open>\<open>any(re.search(p, text) for p in patterns)\<close>\<close>

definition any_search :: "atom list list \<Rightarrow> string \<Rightarrow> bool" where
  "any_search ps text = list_ex (\<lambda>p. re_search p text) ps"

section \<open>Cards (core/models/card.py)\<close>

text \<open>
  The fields of \<open>Card\<close> that the graph code reads. (The mana cost string, power,
  toughness, the art crop, legalities, prices and the set are carried by the class and
  read by none of the functions below.)
\<close>

record Card =
  card_id :: string
  name :: string
  cmc :: rat
  colors :: "string list"
  color_identity :: "string list"
  type_line :: string
  oracle_text :: string
  card_keywords :: "string list"
  image_uri :: string

definition is_creature :: "Card \<Rightarrow> bool" where
  "is_creature c = py_in ''Creature'' (type_line c)"

definition is_land :: "Card \<Rightarrow> bool" where
  "is_land c = py_in ''Land'' (type_line c)"

definition get_card_types :: "Card \<Rightarrow> string list" where
  "get_card_types c =
     filter (\<lambda>card_type. py_in card_type (type_line c))
       [''Creature'', ''Land'', ''Instant'', ''Sorcery'', ''Artifact'', ''Enchantment'',
        ''Planeswalker'']"

text \<open>The em dash U+2014 that separates types from subtypes, in UTF-8.\<close>

definition em_dash :: string where
  "em_dash = [CHR 0xE2, CHR 0x80, CHR 0x94]"

definition get_creature_types :: "Card \<Rightarrow> string list" where
  "get_creature_types c =
     (case after_sep em_dash (type_line c) of
        None \<Rightarrow> []
      | Some rest \<Rightarrow> py_split (py_strip (before_sep em_dash rest)))"

definition produces_mana :: "Card \<Rightarrow> bool" where
  "produces_mana c =
     (if is_land c then True
      else re_search
             (cls ''Aa'' # lit ''dd'' @ [Ch is_space, Star is_space] @ lit ''{''
                @ [Ch (\<lambda>x. x \<in> set ''WUBRGC'' \<or> is_digit x)] @ lit ''}'')
             (oracle_text c))"

definition has_etb_trigger :: "Card \<Rightarrow> bool" where
  "has_etb_trigger c =
     any_search
       [cls ''Ww'' # lit ''hen '' @ dot_star # lit '' enters the battlefield'',
        cls ''Ww'' # lit ''hen '' @ dot_star # lit '' enters'',
        cls ''Ee'' # lit ''nters the battlefield'']
       (oracle_text c)"

definition has_death_trigger :: "Card \<Rightarrow> bool" where
  "has_death_trigger c =
     any_search
       [cls ''Ww'' # lit ''hen '' @ dot_star # lit '' dies'',
        cls ''Ww'' # lit ''henever '' @ dot_star # lit '' dies'',
        cls ''Ww'' # lit ''hen '' @ dot_star # lit '' is put into a graveyard'']
       (oracle_text c)"

definition has_counter_synergy :: "Card \<Rightarrow> bool" where
  "has_counter_synergy c =
     any_search
       [lit ''+1/+1 counter'',
        cls ''Pp'' # lit ''roliferate'',
        cls ''Dd'' # lit ''ouble the number of '' @ dot_star # lit '' counters'']
       (oracle_text c)"

text \<open>
  A Python \<open>set\<close> has no fixed iteration order; where the source iterates over one, the
  model takes its elements in the order of the list the set was built from.
\<close>

definition get_referenced_types :: "Card \<Rightarrow> string list" where
  "get_referenced_types c =
     map py_capitalize
       (filter (\<lambda>type_name. py_in type_name (py_lower (oracle_text c)))
          [''creature'', ''artifact'', ''enchantment'', ''land'', ''planeswalker'',
           ''instant'', ''sorcery''])"

section \<open>The interaction detector (core/graph/interaction_detector.py)\<close>

text \<open>
  The pattern tables of \<open>__init__\<close> that the checks read (\<open>etb_patterns\<close> and
  \<open>counter_care_patterns\<close> are read by none).
\<close>

definition sacrifice_outlet_patterns :: "atom list list" where
  "sacrifice_outlet_patterns =
     [cls ''Ss'' # lit ''acrifice a creature'',
      cls ''Ss'' # lit ''acrifice another'',
      cls ''Ss'' # lit ''acrifice a permanent'',
      lit '', '' @ cls ''Ss'' # lit ''acrifice a'']"

definition death_trigger_patterns :: "atom list list" where
  "death_trigger_patterns =
     [cls ''Ww'' # lit ''henever '' @ dot_star # lit '' dies'',
      cls ''Ww'' # lit ''hen '' @ dot_star # lit '' dies'',
      cls ''Ww'' # lit ''henever another '' @ dot_star # lit '' dies'',
      cls ''Ww'' # lit ''henever a creature dies'']"

definition blink_patterns :: "atom list list" where
  "blink_patterns =
     [cls ''Ee'' # lit ''xile '' @ dot_star # lit '' then return'',
      cls ''Ee'' # lit ''xile target '' @ dot_star # lit '' '' @ cls ''Rr'' # lit ''eturn'',
      cls ''Ff'' # lit ''licker'']"

definition counter_add_patterns :: "atom list list" where
  "counter_add_patterns =
     [cls ''Pp'' # lit ''ut '' @ dot_star # lit '' +1/+1 counter'',
      cls ''Ee'' # lit ''nters '' @ dot_star # lit '' with '' @ dot_star # lit '' +1/+1 counter'']"

definition tutor_type_patterns :: "(string \<times> atom list) list" where
  "tutor_type_patterns =
     [(''creature'', cls ''Ss'' # lit ''earch '' @ dot_star # lit '' for a creature''),
      (''artifact'', cls ''Ss'' # lit ''earch '' @ dot_star # lit '' for an artifact''),
      (''enchantment'', cls ''Ss'' # lit ''earch '' @ dot_star # lit '' for an enchantment''),
      (''land'', cls ''Ss'' # lit ''earch '' @ dot_star # lit '' for a '' @ dot_star # lit '' land''),
      (''instant'', cls ''Ss'' # lit ''earch '' @ dot_star # lit '' for an instant''),
      (''sorcery'', cls ''Ss'' # lit ''earch '' @ dot_star # lit '' for a sorcery'')]"

text \<open>\<open>Interaction(...)\<close> with \<open>bidirectional\<close> left at its default.\<close>

definition mk_interaction ::
  "string \<Rightarrow> string \<Rightarrow> InteractionType \<Rightarrow> rat \<Rightarrow> string \<Rightarrow> Interaction" where
  "mk_interaction s t ty w d =
     \<lparr>source_id = s, target_id = t, interaction_type = ty, weight = w,
      description = Some d, bidirectional = False\<rparr>"

definition check_sacrifice_synergy :: "Card \<Rightarrow> Card \<Rightarrow> Interaction list" where
  "check_sacrifice_synergy card1 card2 =
     (let c1_outlet = any_search sacrifice_outlet_patterns (oracle_text card1);
          c2_death = any_search death_trigger_patterns (oracle_text card2);
          c2_outlet = any_search sacrifice_outlet_patterns (oracle_text card2);
          c1_death = any_search death_trigger_patterns (oracle_text card1)
      in (if c1_outlet \<and> c2_death
          then [mk_interaction (card_id card1) (card_id card2) DEATH_CHAIN (8/10)
                  (name card1 @ '' can sacrifice creatures to trigger '' @ name card2)]
          else [])
       @ (if c2_outlet \<and> c1_death
          then [mk_interaction (card_id card2) (card_id card1) DEATH_CHAIN (8/10)
                  (name card2 @ '' can sacrifice creatures to trigger '' @ name card1)]
          else [])
       @ (if c1_outlet \<and> has_death_trigger card2 \<and> is_creature card2
          then [mk_interaction (card_id card1) (card_id card2) SACRIFICE_OUTLET (7/10)
                  (name card1 @ '' can sacrifice '' @ name card2 @ '' for value'')]
          else [])
       @ (if c2_outlet \<and> has_death_trigger card1 \<and> is_creature card1
          then [mk_interaction (card_id card2) (card_id card1) SACRIFICE_OUTLET (7/10)
                  (name card2 @ '' can sacrifice '' @ name card1 @ '' for value'')]
          else []))"

definition check_etb_synergy :: "Card \<Rightarrow> Card \<Rightarrow> Interaction list" where
  "check_etb_synergy card1 card2 =
     (let c1_etb = has_etb_trigger card1;
          c2_etb = has_etb_trigger card2;
          c1_blink = any_search blink_patterns (oracle_text card1);
          c2_blink = any_search blink_patterns (oracle_text card2)
      in (if c1_blink \<and> c2_etb
          then [mk_interaction (card_id card1) (card_id card2) ETB_CHAIN (85/100)
                  (name card1 @ '' can reuse '' @ name card2 @ [CHR 0x27] @ ''s ETB'')]
          else [])
       @ (if c2_blink \<and> c1_etb
          then [mk_interaction (card_id card2) (card_id card1) ETB_CHAIN (85/100)
                  (name card2 @ '' can reuse '' @ name card1 @ [CHR 0x27] @ ''s ETB'')]
          else []))"

definition check_counter_synergy :: "Card \<Rightarrow> Card \<Rightarrow> Interaction list" where
  "check_counter_synergy card1 card2 =
     (let c1_adds = any_search counter_add_patterns (oracle_text card1);
          c2_adds = any_search counter_add_patterns (oracle_text card2);
          c1_cares = has_counter_synergy card1;
          c2_cares = has_counter_synergy card2
      in (if c1_adds \<and> c2_cares
          then [mk_interaction (card_id card1) (card_id card2) COUNTER_SYNERGY (75/100)
                  (name card1 @ '' adds counters for '' @ name card2)]
          else [])
       @ (if c2_adds \<and> c1_cares
          then [mk_interaction (card_id card2) (card_id card1) COUNTER_SYNERGY (75/100)
                  (name card2 @ '' adds counters for '' @ name card1)]
          else [])
       @ (if c1_cares \<and> c2_cares \<and> (c1_adds \<or> c2_adds)
          then [\<lparr>source_id = card_id card1, target_id = card_id card2,
                  interaction_type = COUNTER_SYNERGY, weight = 7/10,
                  description =
                    Some (''Both '' @ name card1 @ '' and '' @ name card2 @ '' work with counters''),
                  bidirectional = True\<rparr>]
          else []))"

definition check_tribal_synergy :: "Card \<Rightarrow> Card \<Rightarrow> Interaction list" where
  "check_tribal_synergy card1 card2 =
     (let types1 = remdups (get_creature_types card1);
          types2 = remdups (get_creature_types card2);
          shared_types = filter (\<lambda>t. t \<in> set types2) types1;
          text1_lower = py_lower (oracle_text card1);
          text2_lower = py_lower (oracle_text card2)
      in (if shared_types \<noteq> [] \<and> is_creature card1 \<and> is_creature card2
          then [\<lparr>source_id = card_id card1, target_id = card_id card2,
                  interaction_type = TRIBAL, weight = 5/10,
                  description = Some (''Both are '' @ py_join '', '' shared_types),
                  bidirectional = True\<rparr>]
          else [])
       @ map (\<lambda>ctype. mk_interaction (card_id card1) (card_id card2) TRIBAL (7/10)
                        (name card1 @ '' cares about '' @ ctype @ ''s''))
           (filter (\<lambda>ctype. py_in (py_lower ctype) text1_lower) types2)
       @ map (\<lambda>ctype. mk_interaction (card_id card2) (card_id card1) TRIBAL (7/10)
                        (name card2 @ '' cares about '' @ ctype @ ''s''))
           (filter (\<lambda>ctype. py_in (py_lower ctype) text2_lower) types1))"

definition check_type_matters :: "Card \<Rightarrow> Card \<Rightarrow> Interaction list" where
  "check_type_matters card1 card2 =
     (let types1_cares = get_referenced_types card1;
          types2_cares = get_referenced_types card2;
          types1_is = get_card_types card1;
          types2_is = get_card_types card2;
          matches12 = filter (\<lambda>t. t \<in> set types2_is) types1_cares;
          matches21 = filter (\<lambda>t. t \<in> set types1_is) types2_cares
      in (if matches12 \<noteq> []
          then [mk_interaction (card_id card1) (card_id card2) TYPE_MATTERS (6/10)
                  (name card1 @ '' cares about '' @ py_join '', '' matches12)]
          else [])
       @ (if matches21 \<noteq> []
          then [mk_interaction (card_id card2) (card_id card1) TYPE_MATTERS (6/10)
                  (name card2 @ '' cares about '' @ py_join '', '' matches21)]
          else []))"

definition check_mana_relationship :: "Card \<Rightarrow> Card \<Rightarrow> Interaction list" where
  "check_mana_relationship card1 card2 =
     (if produces_mana card1 \<and> \<not> is_land card2
      then (let w = min (4/10 + cmc card2 * (5/100)) (8/10)
            in if cmc card2 \<ge> 4
               then [mk_interaction (card_id card1) (card_id card2) MANA_ENABLES w
                       (name card1 @ '' helps cast '' @ name card2)]
               else [])
      else [])
   @ (if produces_mana card2 \<and> \<not> is_land card1
      then (let w = min (4/10 + cmc card1 * (5/100)) (8/10)
            in if cmc card1 \<ge> 4
               then [mk_interaction (card_id card2) (card_id card1) MANA_ENABLES w
                       (name card2 @ '' helps cast '' @ name card1)]
               else [])
      else [])"

definition check_keyword_synergy :: "Card \<Rightarrow> Card \<Rightarrow> Interaction list" where
  "check_keyword_synergy card1 card2 =
     (let keywords1 = set (map py_lower (card_keywords card1));
          keywords2 = set (map py_lower (card_keywords card2))
      in (if ''deathtouch'' \<in> keywords1
            \<and> (''first strike'' \<in> keywords2 \<or> ''double strike'' \<in> keywords2)
            \<and> py_in ''target creature gains'' (py_lower (oracle_text card2))
          then [mk_interaction (card_id card2) (card_id card1) BUFFS (75/100)
                  ''First strike + deathtouch combo'']
          else [])
       @ (if ''deathtouch'' \<in> keywords2
            \<and> (''first strike'' \<in> keywords1 \<or> ''double strike'' \<in> keywords1)
            \<and> py_in ''target creature gains'' (py_lower (oracle_text card1))
          then [mk_interaction (card_id card1) (card_id card2) BUFFS (75/100)
                  ''First strike + deathtouch combo'']
          else [])
       @ (if ''lifelink'' \<in> keywords1 \<or> ''lifelink'' \<in> keywords2
          then (let text1 = py_lower (oracle_text card1);
                    text2 = py_lower (oracle_text card2)
                in (if ''lifelink'' \<in> keywords1 \<and> py_in ''whenever you gain life'' text2
                    then [mk_interaction (card_id card1) (card_id card2) ENABLES (7/10)
                            (name card1 @ '' triggers '' @ name card2)]
                    else [])
                 @ (if ''lifelink'' \<in> keywords2 \<and> py_in ''whenever you gain life'' text1
                    then [mk_interaction (card_id card2) (card_id card1) ENABLES (7/10)
                            (name card2 @ '' triggers '' @ name card1)]
                    else []))
          else []))"

definition check_tutor_relationship :: "Card \<Rightarrow> Card \<Rightarrow> Interaction list" where
  "check_tutor_relationship card1 card2 =
     map (\<lambda>(card_type, pattern). mk_interaction (card_id card1) (card_id card2) TUTORS (9/10)
                                   (name card1 @ '' can find '' @ name card2))
       (filter (\<lambda>(card_type, pattern). re_search pattern (oracle_text card1)
                                       \<and> py_in (py_capitalize card_type) (type_line card2))
          tutor_type_patterns)
   @ map (\<lambda>(card_type, pattern). mk_interaction (card_id card2) (card_id card1) TUTORS (9/10)
                                   (name card2 @ '' can find '' @ name card1))
       (filter (\<lambda>(card_type, pattern). re_search pattern (oracle_text card2)
                                       \<and> py_in (py_capitalize card_type) (type_line card1))
          tutor_type_patterns)"

definition detect_pair_interactions :: "Card \<Rightarrow> Card \<Rightarrow> Interaction list" where
  "detect_pair_interactions card1 card2 =
     check_sacrifice_synergy card1 card2
   @ check_etb_synergy card1 card2
   @ check_counter_synergy card1 card2
   @ check_tribal_synergy card1 card2
   @ check_type_matters card1 card2
   @ check_mana_relationship card1 card2
   @ check_keyword_synergy card1 card2
   @ check_tutor_relationship card1 card2"

text \<open>Every card with every card after it in the list.\<close>

fun detect_all :: "Card list \<Rightarrow> Interaction list" where
  "detect_all [] = []"
| "detect_all (card1 # rest) =
     concat (map (\<lambda>card2. detect_pair_interactions card1 card2) rest) @ detect_all rest"

section \<open>The synergy weighter (core/graph/tagging.py, core/graph/synergy_weighter.py)\<close>

text \<open>\<open>KeywordTagger.KEYWORD_CATEGORIES\<close>, in the order of the dictionary.\<close>

definition KEYWORD_CATEGORIES :: "(string \<times> string list) list" where
  "KEYWORD_CATEGORIES =
     [(''evasion'', [''flying'', ''menace'', ''trample'', ''intimidate'', ''fear'', ''skulk'',
         ''horsemanship'', ''shadow'', ''plainswalk'', ''islandwalk'', ''swampwalk'',
         ''mountainwalk'', ''forestwalk'', ''landwalk'', ''unblockable'']),
      (''combat'', [''first strike'', ''double strike'', ''deathtouch'', ''vigilance'', ''reach'',
         ''trample'', ''rampage'', ''flanking'', ''bushido'', ''battle cry'', ''melee'',
         ''mentor'', ''training'']),
      (''protection'', [''hexproof'', ''shroud'', ''indestructible'', ''protection'', ''ward'',
         ''defender'', ''absorb'', ''regenerate'']),
      (''speed'', [''haste'', ''flash'', ''split second'']),
      (''recursion'', [''persist'', ''undying'', ''unearth'', ''embalm'', ''eternalize'',
         ''encore'', ''escape'', ''retrace'', ''jump-start'', ''flashback'', ''aftermath'',
         ''recover'', ''dredge'', ''scavenge'']),
      (''economy'', [''convoke'', ''delve'', ''affinity'', ''improvise'', ''assist'', ''bargain'',
         ''offering'', ''treasure'', ''gold'']),
      (''advantage'', [''investigate'', ''clue'', ''cycling'', ''monarch'', ''initiative'',
         ''cascade'', ''discover'', ''explore'', ''scry'', ''surveil'', ''fateseal'']),
      (''removal'', [''destroy'', ''exile'', ''fight'', ''bite'', ''sacrifice'', ''annihilator'']),
      (''tokens'', [''populate'', ''proliferate'', ''amass'', ''incubate'', ''fabricate'',
         ''living weapon'', ''afterlife'', ''create'']),
      (''counters'', [''proliferate'', ''support'', ''bolster'', ''adapt'', ''outlast'',
         ''evolve'', ''graft'', ''modular'', ''scavenge'', ''devour'', ''riot'', ''mentor'']),
      (''graveyard'', [''mill'', ''surveil'', ''dredge'', ''delve'', ''escape'', ''flashback'',
         ''unearth'', ''threshold'', ''delirium''])]"

fun first_category :: "(string \<times> string list) list \<Rightarrow> string \<Rightarrow> string" where
  "first_category [] keyword_lower = ''other''"
| "first_category ((cat, kws) # rest) keyword_lower =
     (if keyword_lower \<in> set kws then cat else first_category rest keyword_lower)"

definition get_category :: "string \<Rightarrow> string" where
  "get_category keyword = first_category KEYWORD_CATEGORIES (py_lower keyword)"

definition DEFAULT_CATEGORY_WEIGHTS :: "(string \<times> rat) list" where
  "DEFAULT_CATEGORY_WEIGHTS =
     [(''evasion'', 12/10), (''combat'', 11/10), (''protection'', 13/10), (''speed'', 11/10),
      (''recursion'', 15/10), (''economy'', 14/10), (''advantage'', 13/10),
      (''removal'', 12/10), (''tokens'', 15/10), (''counters'', 15/10),
      (''graveyard'', 14/10), (''other'', 1)]"

definition DEFAULT_CONSTANT_C :: rat where
  "DEFAULT_CONSTANT_C = 5"

text \<open>
  \<open>SynergyWeighter.__init__\<close>: the weighter is its table of weights, a copy of the
  defaults updated with the caller's table when there is one (updating with an empty
  table, which the source skips, changes nothing). The tagger it also builds is read
  through \<open>get_category\<close> alone, which looks at the table of categories and not at the
  language model.
\<close>

definition new_SynergyWeighter :: "(string \<rightharpoonup> rat) option \<Rightarrow> (string \<rightharpoonup> rat)" where
  "new_SynergyWeighter category_weights =
     (case category_weights of
        None \<Rightarrow> map_of DEFAULT_CATEGORY_WEIGHTS
      | Some cw \<Rightarrow> map_of DEFAULT_CATEGORY_WEIGHTS ++ cw)"

definition check_direct_reference :: "Card \<Rightarrow> Card \<Rightarrow> bool" where
  "check_direct_reference card1 card2 =
     (if py_in (name card1) (oracle_text card2) then True
      else if py_in (name card2) (oracle_text card1) then True
      else False)"

definition calculate_synergy_score ::
  "(string \<rightharpoonup> rat) \<Rightarrow> Card \<Rightarrow> Card \<Rightarrow> string list \<Rightarrow> rat" where
  "calculate_synergy_score category_weights card1 card2 interaction_tags =
     (let score = foldl
            (\<lambda>score tag.
               let category = get_category tag;
                   alpha = (case category_weights category of None \<Rightarrow> 1 | Some a \<Rightarrow> a)
               in score + 1 * alpha)
            0 interaction_tags
      in if check_direct_reference card1 card2 then score + DEFAULT_CONSTANT_C else score)"

section \<open>The graph analyzer (core/graph/analysis.py)\<close>

text \<open>
  The algorithms come from networkx and are parameters here; a call may raise. A
  dictionary of scores is an association list.
\<close>

datatype py_exception = PowerIterationFailedConvergence | ImportError | OtherException string

type_synonym scores = "(string \<times> rat) list"

record nx_library =
  nx_degree_centrality :: "nx_graph \<Rightarrow> py_exception + scores"
  nx_betweenness_centrality :: "nx_graph \<Rightarrow> py_exception + scores"
  nx_closeness_centrality :: "nx_graph \<Rightarrow> py_exception + scores"
  nx_eigenvector_centrality :: "nx_graph \<Rightarrow> py_exception + scores"
  nx_pagerank_directed :: "nx_graph \<Rightarrow> py_exception + scores"
  nx_clustering :: "nx_graph \<Rightarrow> py_exception + scores"
  nx_average_clustering :: "nx_graph \<Rightarrow> py_exception + rat"
  nx_connected_components :: "nx_graph \<Rightarrow> py_exception + string list list"
  import_louvain_communities ::
    "py_exception + (nx_graph \<Rightarrow> py_exception + string list list)"

definition degree_centrality :: "nx_library \<Rightarrow> nx_graph \<Rightarrow> py_exception + scores" where
  "degree_centrality nx g = nx_degree_centrality nx g"

definition betweenness_centrality :: "nx_library \<Rightarrow> nx_graph \<Rightarrow> py_exception + scores" where
  "betweenness_centrality nx g =
     (if length (nodes g) < 2 then Inr [] else nx_betweenness_centrality nx g)"

definition closeness_centrality :: "nx_library \<Rightarrow> nx_graph \<Rightarrow> py_exception + scores" where
  "closeness_centrality nx g =
     (if length (nodes g) < 2 then Inr [] else nx_closeness_centrality nx g)"

definition eigenvector_centrality :: "nx_library \<Rightarrow> nx_graph \<Rightarrow> py_exception + scores" where
  "eigenvector_centrality nx g =
     (if length (nodes g) < 2 then Inr []
      else case nx_eigenvector_centrality nx g of
             Inl PowerIterationFailedConvergence \<Rightarrow> Inr []
           | Inl e \<Rightarrow> Inl e
           | Inr r \<Rightarrow> Inr r)"

text \<open>\<open>nx_pagerank_directed\<close> is \<open>nx.pagerank\<close> on the directed copy of the graph.\<close>

definition pagerank :: "nx_library \<Rightarrow> nx_graph \<Rightarrow> py_exception + scores" where
  "pagerank nx g = (if length (nodes g) < 2 then Inr [] else nx_pagerank_directed nx g)"

definition clustering_coefficient :: "nx_library \<Rightarrow> nx_graph \<Rightarrow> py_exception + scores" where
  "clustering_coefficient nx g = nx_clustering nx g"

definition average_clustering :: "nx_library \<Rightarrow> nx_graph \<Rightarrow> py_exception + rat" where
  "average_clustering nx g =
     (if length (nodes g) < 3 then Inr 0 else nx_average_clustering nx g)"

definition connected_components ::
  "nx_library \<Rightarrow> nx_graph \<Rightarrow> py_exception + string list list" where
  "connected_components nx g = nx_connected_components nx g"

text \<open>
  The import of the algorithm and its call are both inside the \<open>try\<close>; whatever either
  raises, the handler returns the connected components.
\<close>

definition detect_communities ::
  "nx_library \<Rightarrow> nx_graph \<Rightarrow> py_exception + string list list" where
  "detect_communities nx g =
     (if length (nodes g) < 2 then Inr [node_ids g]
      else case import_louvain_communities nx of
             Inl e \<Rightarrow> connected_components nx g
           | Inr louvain_communities \<Rightarrow>
               (case louvain_communities g of
                  Inl e \<Rightarrow> connected_components nx g
                | Inr communities \<Rightarrow> Inr communities))"

record metrics =
  composite :: rat
  degree :: rat
  betweenness :: rat
  pagerank_score :: rat
  clustering :: rat

text \<open>\<open>d.get(key, 0)\<close>\<close>

definition get0 :: "scores \<Rightarrow> string \<Rightarrow> rat" where
  "get0 d k = (case map_of d k of None \<Rightarrow> 0 | Some v \<Rightarrow> v)"

text \<open>
  \<open>sorted(items, key=..., reverse=True)\<close>: Python's sort is stable, also when reversed,
  and a stable sort has one result, the one insertion builds here.
\<close>

fun insort_desc :: "('a \<Rightarrow> rat) \<Rightarrow> 'a \<Rightarrow> 'a list \<Rightarrow> 'a list" where
  "insort_desc k x [] = [x]"
| "insort_desc k x (y # ys) = (if k y \<le> k x then x # y # ys else y # insort_desc k x ys)"

definition sorted_reverse :: "('a \<Rightarrow> rat) \<Rightarrow> 'a list \<Rightarrow> 'a list" where
  "sorted_reverse k xs = foldr (insort_desc k) xs []"

text \<open>The slice \<open>xs[:n]\<close>; a negative \<open>n\<close> counts from the end.\<close>

definition slice_to :: "int \<Rightarrow> 'a list \<Rightarrow> 'a list" where
  "slice_to n xs = (if 0 \<le> n then take (nat n) xs else take (length xs - nat (- n)) xs)"

definition node_metrics :: "scores \<Rightarrow> scores \<Rightarrow> scores \<Rightarrow> scores \<Rightarrow> string \<Rightarrow> metrics" where
  "node_metrics dg bt pr cl n =
     \<lparr>composite = get0 dg n * (3/10) + get0 bt n * (3/10)
                    + get0 pr n * (3/10) + get0 cl n * (1/10),
      degree = get0 dg n,
      betweenness = get0 bt n,
      pagerank_score = get0 pr n,
      clustering = get0 cl n\<rparr>"

text \<open>An exception raised by a call leaves the caller at once.\<close>

definition bind_exc ::
  "py_exception + 'a \<Rightarrow> ('a \<Rightarrow> py_exception + 'b) \<Rightarrow> py_exception + 'b" where
  "bind_exc r f = (case r of Inl e \<Rightarrow> Inl e | Inr x \<Rightarrow> f x)"

text \<open>
  \<open>scores\<close> is a dictionary keyed by the nodes, which are the keys of a dictionary
  themselves: its items are one per node, in the order of the nodes.
\<close>

definition key_cards ::
  "nx_library \<Rightarrow> nx_graph \<Rightarrow> int \<Rightarrow> py_exception + (string \<times> metrics) list" where
  "key_cards nx g top_n =
     bind_exc (degree_centrality nx g) (\<lambda>dg.
     bind_exc (betweenness_centrality nx g) (\<lambda>bt.
     bind_exc (pagerank nx g) (\<lambda>pr.
     bind_exc (clustering_coefficient nx g) (\<lambda>cl.
       (let items = map (\<lambda>n. (n, node_metrics dg bt pr cl n)) (node_ids g);
            sorted_cards = sorted_reverse (\<lambda>x. composite (snd x)) items
        in Inr (slice_to top_n sorted_cards))))))"

section \<open>Notions used in the statements\<close>

text \<open>An interaction touches the unordered pair of \<open>x\<close> and \<open>y\<close> when they are its two ends.\<close>

definition touches :: "Interaction \<Rightarrow> string \<Rightarrow> string \<Rightarrow> bool" where
  "touches i x y = ((source_id i = x \<and> target_id i = y) \<or> (source_id i = y \<and> target_id i = x))"

text \<open>What \<open>add_interaction\<close> reads from an edge: \<open>edge_data.get(key, default)\<close>.\<close>

definition types_of :: "edge_data \<Rightarrow> string list" where
  "types_of e = (case interaction_types e of None \<Rightarrow> [] | Some ts \<Rightarrow> ts)"

definition weight_of :: "edge_data \<Rightarrow> rat" where
  "weight_of e = (case edge_weight e of None \<Rightarrow> 0 | Some x \<Rightarrow> x)"

text \<open>The attribute dictionary of an edge after one more interaction, seen on its own.\<close>

definition merge_edge :: "edge_data option \<Rightarrow> Interaction \<Rightarrow> edge_data" where
  "merge_edge eo i =
     (case eo of
        Some e \<Rightarrow> e\<lparr>interaction_types := Some (types_of e @ [type_value (interaction_type i)]),
                     edge_weight := Some (max (weight_of e) (weight i))\<rparr>
      | None \<Rightarrow> \<lparr>interaction_types = Some [type_value (interaction_type i)],
                 edge_weight = Some (weight i), edge_description = Some (description i)\<rparr>)"

definition edge_after :: "edge_data option \<Rightarrow> Interaction list \<Rightarrow> edge_data option" where
  "edge_after eo ys = foldl (\<lambda>eo i. Some (merge_edge eo i)) eo ys"

text \<open>
  An undirected graph holds one attribute dictionary per unordered pair: what is filed
  under \<open>(x, y)\<close> is what is filed under \<open>(y, x)\<close>.
\<close>

definition sym_adj :: "nx_graph \<Rightarrow> bool" where
  "sym_adj g = (\<forall>x y. adj g x y = adj g y x)"

text \<open>Three interactions for the examples.\<close>

definition ex_i1 :: Interaction where
  "ex_i1 = mk_interaction ''a'' ''b'' DEATH_CHAIN (6/10) ''first''"

definition ex_i2 :: Interaction where
  "ex_i2 = mk_interaction ''b'' ''a'' TRIBAL (9/10) ''second''"

definition ex_i3 :: Interaction where
  "ex_i3 = mk_interaction ''c'' ''d'' TUTORS (9/10) ''third''"

text \<open>
  A networkx in which every algorithm raises and the community algorithm cannot be
  imported (the connected components are those of a graph without edges), one in which
  the algorithm is imported and raises, and two small graphs.
\<close>

definition nx_raising :: nx_library where
  "nx_raising =
     \<lparr>nx_degree_centrality = (\<lambda>g. Inl (OtherException ''degree'')),
      nx_betweenness_centrality = (\<lambda>g. Inl (OtherException ''betweenness'')),
      nx_closeness_centrality = (\<lambda>g. Inl (OtherException ''closeness'')),
      nx_eigenvector_centrality = (\<lambda>g. Inl (OtherException ''eigenvector'')),
      nx_pagerank_directed = (\<lambda>g. Inl (OtherException ''pagerank'')),
      nx_clustering = (\<lambda>g. Inl (OtherException ''clustering'')),
      nx_average_clustering = (\<lambda>g. Inl (OtherException ''average_clustering'')),
      nx_connected_components = (\<lambda>g. Inr (map (\<lambda>n. [n]) (node_ids g))),
      import_louvain_communities = Inl ImportError\<rparr>"

definition one_node_graph :: nx_graph where
  "one_node_graph = \<lparr>nodes = [(''a'', None)], adj = (\<lambda>u v. None)\<rparr>"

definition two_node_graph :: nx_graph where
  "two_node_graph = \<lparr>nodes = [(''a'', None), (''b'', None)], adj = (\<lambda>u v. None)\<rparr>"

definition nx_louvain_raises :: nx_library where
  "nx_louvain_raises =
     nx_raising\<lparr>import_louvain_communities := Inr (\<lambda>g. Inl (OtherException ''louvain''))\<rparr>"

text \<open>The items of the dictionary \<open>scores\<close> of \<open>key_cards\<close>, before they are sorted.\<close>

definition score_items :: "scores \<Rightarrow> scores \<Rightarrow> scores \<Rightarrow> scores \<Rightarrow> nx_graph \<Rightarrow> (string \<times> metrics) list" where
  "score_items dg bt pr cl g = map (\<lambda>n. (n, node_metrics dg bt pr cl n)) (node_ids g)"

text \<open>A graph of three nodes and a networkx that scores them, two of them alike.\<close>

definition three_node_graph :: nx_graph where
  "three_node_graph =
     \<lparr>nodes = [(''a'', None), (''b'', None), (''c'', None)], adj = (\<lambda>u v. None)\<rparr>"

definition nx_example :: nx_library where
  "nx_example =
     \<lparr>nx_degree_centrality = (\<lambda>g. Inr [(''a'', 1/2), (''b'', 1), (''c'', 1/2)]),
      nx_betweenness_centrality = (\<lambda>g. Inr [(''b'', 1)]),
      nx_closeness_centrality = (\<lambda>g. Inr []),
      nx_eigenvector_centrality = (\<lambda>g. Inl PowerIterationFailedConvergence),
      nx_pagerank_directed = (\<lambda>g. Inr [(''a'', 1/4), (''b'', 1/2), (''c'', 1/4)]),
      nx_clustering = (\<lambda>g. Inr []),
      nx_average_clustering = (\<lambda>g. Inr 0),
      nx_connected_components = (\<lambda>g. Inr (map (\<lambda>n. [n]) (node_ids g))),
      import_louvain_communities = Inl ImportError\<rparr>"

text \<open>
  The three cards of tests/smoke_test.py, and a card whose text holds the name of the
  second.
\<close>

definition smoke_c1 :: Card where
  "smoke_c1 = \<lparr>card_id = ''c1'', name = ''Sacrifice Outlet'', cmc = 2, colors = [],
     color_identity = [], type_line = ''Artifact'',
     oracle_text = ''Sacrifice a creature: Add {B}.'', card_keywords = [], image_uri = ''''\<rparr>"

definition smoke_c2 :: Card where
  "smoke_c2 = \<lparr>card_id = ''c2'', name = ''Death Trigger'', cmc = 3, colors = [],
     color_identity = [], type_line = ''Creature'',
     oracle_text = ''When this creature dies, draw a card.'', card_keywords = [''Flying''],
     image_uri = ''''\<rparr>"

definition smoke_c3 :: Card where
  "smoke_c3 = \<lparr>card_id = ''c3'', name = ''Keyword Lord'', cmc = 4, colors = [],
     color_identity = [], type_line = ''Enchantment'',
     oracle_text = ''Creatures with flying get +1/+1.'', card_keywords = [], image_uri = ''''\<rparr>"

definition ex_namer :: Card where
  "ex_namer = \<lparr>card_id = ''c4'', name = ''Namer'', cmc = 1, colors = [],
     color_identity = [], type_line = ''Sorcery'',
     oracle_text = ''Search your library for a card named Death Trigger.'',
     card_keywords = [], image_uri = ''''\<rparr>"

text \<open>An interaction runs between two cards, one way or the other.\<close>

definition ends_in :: "Interaction \<Rightarrow> Card \<Rightarrow> Card \<Rightarrow> bool" where
  "ends_in i card1 card2 =
     ((source_id i = card_id card1 \<and> target_id i = card_id card2)
      \<or> (source_id i = card_id card2 \<and> target_id i = card_id card1))"

text \<open>The pairs that the two loops of \<open>detect_all\<close> visit, in their order.\<close>

fun pairs_of :: "'a list \<Rightarrow> ('a \<times> 'a) list" where
  "pairs_of [] = []"
| "pairs_of (c # cs) = map (Pair c) cs @ pairs_of cs"

text \<open>A self-loop is an edge from a node to itself.\<close>

definition no_self_loops :: "nx_graph \<Rightarrow> bool" where
  "no_self_loops g = (\<forall>u. adj g u u = None)"

text \<open>
  The rule of the mana relationship from a source \<open>s\<close> to a target \<open>t\<close>, and the
  interaction it emits.
\<close>

definition mana_rule :: "Card \<Rightarrow> Card \<Rightarrow> bool" where
  "mana_rule s t = (produces_mana s \<and> \<not> is_land t \<and> 4 \<le> cmc t)"

definition mana_interaction :: "Card \<Rightarrow> Card \<Rightarrow> Interaction" where
  "mana_interaction s t =
     mk_interaction (card_id s) (card_id t) MANA_ENABLES (min (4/10 + cmc t * (5/100)) (8/10))
       (name s @ '' helps cast '' @ name t)"

text \<open>An enchantment, not a creature, with a death trigger.\<close>

definition ex_payoff :: Card where
  "ex_payoff = \<lparr>card_id = ''c5'', name = ''Payoff'', cmc = 3, colors = [],
     color_identity = [], type_line = ''Enchantment'',
     oracle_text = ''Whenever a creature dies, draw a card.'', card_keywords = [],
     image_uri = ''''\<rparr>"

text \<open>The two interactions of the sacrifice check from \<open>a\<close> to \<open>b\<close>.\<close>

definition death_chain :: "Card \<Rightarrow> Card \<Rightarrow> Interaction" where
  "death_chain a b =
     mk_interaction (card_id a) (card_id b) DEATH_CHAIN (8/10)
       (name a @ '' can sacrifice creatures to trigger '' @ name b)"

definition sacrifice_outlet :: "Card \<Rightarrow> Card \<Rightarrow> Interaction" where
  "sacrifice_outlet a b =
     mk_interaction (card_id a) (card_id b) SACRIFICE_OUTLET (7/10)
       (name a @ '' can sacrifice '' @ name b @ '' for value'')"

section \<open>Merging interactions into edges\<close>

lemma adj_set_edge:
  "set_edge a u v d x y = (if (x = u \<and> y = v) \<or> (x = v \<and> y = u) then Some d else a x y)"
  by (simp add: set_edge_def)

lemma add_interaction_Some:
  "adj g (source_id i) (target_id i) = Some e \<Longrightarrow>
   add_interaction g i =
     g\<lparr>adj := set_edge (adj g) (source_id i) (target_id i) (merge_edge (Some e) i)\<rparr>"
  by (simp add: add_interaction_def merge_edge_def types_of_def weight_of_def Let_def)

lemma add_interaction_None:
  "adj g (source_id i) (target_id i) = None \<Longrightarrow>
   add_interaction g i =
     g\<lparr>nodes := ensure_node (target_id i) (ensure_node (source_id i) (nodes g)),
       adj := set_edge (adj g) (source_id i) (target_id i) (merge_edge None i)\<rparr>"
  by (simp add: add_interaction_def merge_edge_def add_edge_def)

lemma adj_add_interaction:
  "adj (add_interaction g i) x y =
     (if touches i x y then Some (merge_edge (adj g (source_id i) (target_id i)) i) else adj g x y)"
proof (cases "adj g (source_id i) (target_id i)")
  case None
  then show ?thesis
    by (simp add: add_interaction_None adj_set_edge touches_def)
next
  case (Some e)
  then show ?thesis
    by (simp add: add_interaction_Some adj_set_edge touches_def)
qed

lemma nodes_add_interaction_existing:
  "adj g (source_id i) (target_id i) = Some e \<Longrightarrow> nodes (add_interaction g i) = nodes g"
  by (simp add: add_interaction_def Let_def)

lemma sym_adj_add_interaction: "sym_adj g \<Longrightarrow> sym_adj (add_interaction g i)"
  unfolding sym_adj_def by (auto simp: adj_add_interaction touches_def)

lemma sym_adj_ingest: "sym_adj g \<Longrightarrow> sym_adj (ingest g xs)"
  unfolding ingest_def by (induction xs arbitrary: g) (simp_all add: sym_adj_add_interaction)

lemma adj_add_interaction_sym:
  "sym_adj g \<Longrightarrow> adj (add_interaction g i) x y =
     (if touches i x y then Some (merge_edge (adj g x y) i) else adj g x y)"
  unfolding adj_add_interaction by (auto simp: sym_adj_def touches_def)

lemma adj_ingest:
  "sym_adj g \<Longrightarrow> adj (ingest g xs) x y = edge_after (adj g x y) (filter (\<lambda>i. touches i x y) xs)"
proof (induction xs arbitrary: g)
  case Nil
  then show ?case by (simp add: ingest_def edge_after_def)
next
  case (Cons i xs)
  have s: "sym_adj (add_interaction g i)" using Cons.prems by (rule sym_adj_add_interaction)
  have "adj (ingest g (i # xs)) x y = adj (ingest (add_interaction g i) xs) x y"
    by (simp add: ingest_def)
  also have "\<dots> = edge_after (adj (add_interaction g i) x y) (filter (\<lambda>i. touches i x y) xs)"
    using Cons.IH[OF s] .
  finally show ?case
    by (simp add: adj_add_interaction_sym[OF Cons.prems] edge_after_def)
qed


lemma edge_after_Nil [simp]: "edge_after eo [] = eo"
  by (simp add: edge_after_def)

lemma edge_after_Cons [simp]: "edge_after eo (i # ys) = edge_after (Some (merge_edge eo i)) ys"
  by (simp add: edge_after_def)

lemma merge_edge_Some_fields:
  "types_of (merge_edge (Some e) i) = types_of e @ [type_value (interaction_type i)]"
  "weight_of (merge_edge (Some e) i) = max (weight_of e) (weight i)"
  "edge_weight (merge_edge (Some e) i) = Some (max (weight_of e) (weight i))"
  "edge_description (merge_edge (Some e) i) = edge_description e"
  by (simp_all add: merge_edge_def types_of_def weight_of_def)

lemma edge_after_Some:
  "\<exists>e'. edge_after (Some e) ys = Some e'
       \<and> types_of e' = types_of e @ map (\<lambda>i. type_value (interaction_type i)) ys
       \<and> weight_of e' = foldl max (weight_of e) (map weight ys)
       \<and> (ys \<noteq> [] \<longrightarrow> edge_weight e' = Some (weight_of e'))
       \<and> (ys = [] \<longrightarrow> e' = e)
       \<and> edge_description e' = edge_description e"
proof (induction ys arbitrary: e)
  case Nil
  show ?case by simp
next
  case (Cons i ys)
  obtain e' where e': "edge_after (Some (merge_edge (Some e) i)) ys = Some e'"
    "types_of e' = types_of (merge_edge (Some e) i) @ map (\<lambda>i. type_value (interaction_type i)) ys"
    "weight_of e' = foldl max (weight_of (merge_edge (Some e) i)) (map weight ys)"
    "ys \<noteq> [] \<longrightarrow> edge_weight e' = Some (weight_of e')"
    "ys = [] \<longrightarrow> e' = merge_edge (Some e) i"
    "edge_description e' = edge_description (merge_edge (Some e) i)"
    using Cons.IH[of "merge_edge (Some e) i"] by blast
  have w: "edge_weight e' = Some (weight_of e')"
  proof (cases "ys = []")
    case True
    then have "e' = merge_edge (Some e) i" using e'(5) by simp
    then show ?thesis by (simp add: merge_edge_Some_fields)
  next
    case False
    then show ?thesis using e'(4) by simp
  qed
  show ?case using e' w by (simp add: merge_edge_Some_fields)
qed

lemma foldl_max_ge: "(w::rat) \<le> foldl max w ws"
proof (induction ws arbitrary: w)
  case Nil show ?case by simp
next
  case (Cons a ws)
  have "w \<le> max w a" by simp
  also have "\<dots> \<le> foldl max (max w a) ws" by (rule Cons.IH)
  finally show ?case by simp
qed

lemma foldl_max_ge_elem: "(a::rat) \<in> set ws \<Longrightarrow> a \<le> foldl max w ws"
proof (induction ws arbitrary: w)
  case Nil then show ?case by simp
next
  case (Cons b ws)
  show ?case
  proof (cases "a = b")
    case True
    have "a \<le> max w b" using True by simp
    also have "\<dots> \<le> foldl max (max w b) ws" by (rule foldl_max_ge)
    finally show ?thesis by simp
  next
    case False
    then have "a \<in> set ws" using Cons.prems by simp
    then show ?thesis using Cons.IH by simp
  qed
qed

lemma foldl_max_absorb: "(\<forall>a\<in>set ws. a \<le> (w::rat)) \<Longrightarrow> foldl max w ws = w"
  by (induction ws) (simp_all add: max_absorb1)

text \<open>After one pass over a non-empty list the weight is present and bounds every weight.\<close>

lemma edge_after_nonempty:
  assumes "ys \<noteq> []"
  shows "\<exists>e1. edge_after eo ys = Some e1 \<and> edge_weight e1 = Some (weight_of e1)
            \<and> (\<forall>i\<in>set ys. weight i \<le> weight_of e1)"
proof -
  obtain i rest where ys: "ys = i # rest" using assms by (cases ys) auto
  let ?m = "merge_edge eo i"
  obtain e1 where e1: "edge_after (Some ?m) rest = Some e1"
    "weight_of e1 = foldl max (weight_of ?m) (map weight rest)"
    "rest \<noteq> [] \<longrightarrow> edge_weight e1 = Some (weight_of e1)"
    "rest = [] \<longrightarrow> e1 = ?m"
    using edge_after_Some[of ?m rest] by blast
  have mw: "edge_weight ?m = Some (weight_of ?m)" "weight i \<le> weight_of ?m"
    by (cases eo; simp add: merge_edge_def weight_of_def)+
  have w: "edge_weight e1 = Some (weight_of e1)"
    using e1(3,4) mw(1) by (cases "rest = []") simp_all
  have b: "\<forall>j\<in>set ys. weight j \<le> weight_of e1"
  proof
    fix j assume "j \<in> set ys"
    then consider "j = i" | "j \<in> set rest" using ys by auto
    then show "weight j \<le> weight_of e1"
    proof cases
      case 1
      have "weight i \<le> weight_of ?m" by (rule mw(2))
      also have "\<dots> \<le> weight_of e1" unfolding e1(2) by (rule foldl_max_ge)
      finally show ?thesis using 1 by simp
    next
      case 2
      then have "weight j \<in> set (map weight rest)" by simp
      then show ?thesis unfolding e1(2) by (rule foldl_max_ge_elem)
    qed
  qed
  show ?thesis using e1(1) w b ys by simp
qed

lemma edge_after_twice:
  assumes "edge_after eo ys = Some e1"
  shows "\<exists>e2. edge_after (edge_after eo ys) ys = Some e2
            \<and> edge_weight e2 = edge_weight e1
            \<and> edge_description e2 = edge_description e1
            \<and> types_of e2 = types_of e1 @ map (\<lambda>i. type_value (interaction_type i)) ys"
proof (cases "ys = []")
  case True
  then show ?thesis using assms by simp
next
  case False
  obtain e1' where a: "edge_after eo ys = Some e1'" "edge_weight e1' = Some (weight_of e1')"
    "\<forall>i\<in>set ys. weight i \<le> weight_of e1'"
    using edge_after_nonempty[OF False, of eo] by blast
  have eq: "e1' = e1" using a(1) assms by simp
  obtain e2 where b: "edge_after (Some e1) ys = Some e2"
    "types_of e2 = types_of e1 @ map (\<lambda>i. type_value (interaction_type i)) ys"
    "weight_of e2 = foldl max (weight_of e1) (map weight ys)"
    "ys \<noteq> [] \<longrightarrow> edge_weight e2 = Some (weight_of e2)"
    "edge_description e2 = edge_description e1"
    using edge_after_Some[of e1 ys] by blast
  have "foldl max (weight_of e1) (map weight ys) = weight_of e1"
    using a(3) eq by (intro foldl_max_absorb) auto
  then have "edge_weight e2 = edge_weight e1"
    using b(3,4) False a(2) eq by simp
  then show ?thesis using b assms by simp
qed

lemma edge_after_None_iff: "edge_after eo ys = None \<longleftrightarrow> eo = None \<and> ys = []"
proof (cases "ys = []")
  case True then show ?thesis by simp
next
  case False
  then show ?thesis using edge_after_nonempty[OF False, of eo] by auto
qed

lemma adj_persists: "adj g x y \<noteq> None \<Longrightarrow> adj (add_interaction g i) x y \<noteq> None"
  by (simp add: adj_add_interaction)

lemma nodes_ingest_existing:
  "(\<forall>i\<in>set ys. adj g (source_id i) (target_id i) \<noteq> None) \<Longrightarrow> nodes (ingest g ys) = nodes g"
proof (induction ys arbitrary: g)
  case Nil
  show ?case by (simp add: ingest_def)
next
  case (Cons i ys)
  obtain e where e: "adj g (source_id i) (target_id i) = Some e" using Cons.prems by auto
  have n: "nodes (add_interaction g i) = nodes g" using e by (rule nodes_add_interaction_existing)
  have "\<forall>j\<in>set ys. adj (add_interaction g i) (source_id j) (target_id j) \<noteq> None"
    using Cons.prems by (simp add: adj_persists)
  then have "nodes (ingest (add_interaction g i) ys) = nodes (add_interaction g i)"
    by (rule Cons.IH)
  then show ?case using n by (simp add: ingest_def)
qed

lemma adj_after_ingest:
  "i \<in> set xs \<Longrightarrow> adj (ingest g xs) (source_id i) (target_id i) \<noteq> None"
proof (induction xs rule: rev_induct)
  case Nil
  then show ?case by simp
next
  case (snoc j xs)
  have step: "ingest g (xs @ [j]) = add_interaction (ingest g xs) j" by (simp add: ingest_def)
  show ?case
  proof (cases "i = j")
    case True
    then show ?thesis unfolding step by (simp add: adj_add_interaction touches_def)
  next
    case False
    then have "i \<in> set xs" using snoc.prems by simp
    then show ?thesis unfolding step using snoc.IH by (simp add: adj_persists)
  qed
qed


lemma sym_adj_empty: "sym_adj empty_graph"
  by (simp add: sym_adj_def empty_graph_def)


section \<open>The stable descending sort\<close>

lemma mset_insort_desc: "mset (insort_desc k x ys) = add_mset x (mset ys)"
  by (induction ys) simp_all

lemma set_insort_desc: "set (insort_desc k x ys) = insert x (set ys)"
  by (induction ys) auto

lemma sorted_insort_desc:
  "sorted_wrt (\<lambda>a b. k b \<le> k a) ys \<Longrightarrow> sorted_wrt (\<lambda>a b. k b \<le> k a) (insort_desc k x ys)"
proof (induction ys)
  case Nil
  show ?case by simp
next
  case (Cons y ys)
  show ?case
  proof (cases "k y \<le> k x")
    case True
    have "\<forall>z\<in>set ys. k z \<le> k x" using Cons.prems True by auto
    then show ?thesis using Cons.prems True by simp
  next
    case False
    have "sorted_wrt (\<lambda>a b. k b \<le> k a) (insort_desc k x ys)" using Cons by simp
    moreover have "\<forall>z\<in>set (insort_desc k x ys). k z \<le> k y"
      using Cons.prems False by (auto simp: set_insort_desc)
    ultimately show ?thesis using False by simp
  qed
qed

lemma filter_insort_desc:
  "filter (\<lambda>y. k y = c) (insort_desc k x ys)
     = (if k x = c then x # filter (\<lambda>y. k y = c) ys else filter (\<lambda>y. k y = c) ys)"
  by (induction ys) auto

lemma mset_sorted_reverse: "mset (sorted_reverse k xs) = mset xs"
  by (induction xs) (simp_all add: sorted_reverse_def mset_insort_desc)

lemma sorted_sorted_reverse: "sorted_wrt (\<lambda>a b. k b \<le> k a) (sorted_reverse k xs)"
  by (induction xs) (simp_all add: sorted_reverse_def sorted_insort_desc)

lemma filter_sorted_reverse:
  "filter (\<lambda>y. k y = c) (sorted_reverse k xs) = filter (\<lambda>y. k y = c) xs"
  by (induction xs) (simp_all add: sorted_reverse_def filter_insort_desc)

lemma key_cards_Inr:
  assumes "degree_centrality nx g = Inr dg" and "betweenness_centrality nx g = Inr bt"
    and "pagerank nx g = Inr pr" and "clustering_coefficient nx g = Inr cl"
  shows "key_cards nx g top_n
           = Inr (slice_to top_n (sorted_reverse (\<lambda>x. composite (snd x)) (score_items dg bt pr cl g)))"
  by (simp add: key_cards_def bind_exc_def assms score_items_def Let_def)

text \<open>With a negative bound the slice drops that many entries from the end.\<close>

lemma slice_to_negative: "n < 0 \<Longrightarrow> slice_to n xs = take (length xs - nat (- n)) xs"
  by (simp add: slice_to_def)

section \<open>Categories and default weights\<close>

lemma get_category_examples:
  "get_category ''recursion'' = ''other''" "get_category ''graveyard'' = ''other''"
  "get_category ''persist'' = ''recursion''" "get_category ''mill'' = ''graveyard''"
  by (simp_all add: get_category_def KEYWORD_CATEGORIES_def py_lower_def lower_char_def)

lemma default_weights:
  "new_SynergyWeighter None ''other'' = Some 1"
  "new_SynergyWeighter None ''recursion'' = Some (15/10)"
  "new_SynergyWeighter None ''graveyard'' = Some (14/10)"
  by (simp_all add: new_SynergyWeighter_def DEFAULT_CATEGORY_WEIGHTS_def)

section \<open>What the patterns match\<close>

lemma lit_append: "lit (a @ b) = lit a @ lit b"
  by (simp add: lit_def)

lemma match_here_Ch:
  "match_here (Ch c # p) s \<longleftrightarrow> (\<exists>x r. s = x # r \<and> c x \<and> match_here p r)"
  by (cases s) auto

lemma match_here_lit:
  "match_here (lit w @ p) s \<longleftrightarrow> (\<exists>r. s = w @ r \<and> match_here p r)"
proof (induction w arbitrary: s)
  case Nil
  show ?case by (simp add: lit_def)
next
  case (Cons a w)
  have "match_here (lit (a # w) @ p) s \<longleftrightarrow> match_here (Ch (\<lambda>x. x = a) # (lit w @ p)) s"
    by (simp add: lit_def)
  also have "\<dots> \<longleftrightarrow> (\<exists>x r. s = x # r \<and> x = a \<and> match_here (lit w @ p) r)"
    by (rule match_here_Ch)
  also have "\<dots> \<longleftrightarrow> (\<exists>r. s = (a # w) @ r \<and> match_here p r)"
    using Cons.IH by auto
  finally show ?case .
qed

lemma match_here_Star:
  "match_here (Star c # p) s \<longleftrightarrow> (\<exists>u r. s = u @ r \<and> (\<forall>x\<in>set u. c x) \<and> match_here p r)"
proof (induction s)
  case Nil
  show ?case by simp
next
  case (Cons x xs)
  show ?case
  proof
    assume "match_here (Star c # p) (x # xs)"
    then consider "match_here p (x # xs)" | "c x" "match_here (Star c # p) xs" by auto
    then show "\<exists>u r. x # xs = u @ r \<and> (\<forall>x\<in>set u. c x) \<and> match_here p r"
    proof cases
      case 1
      then have "x # xs = [] @ (x # xs) \<and> (\<forall>y\<in>set []. c y) \<and> match_here p (x # xs)" by simp
      then show ?thesis by blast
    next
      case 2
      then obtain u r where "xs = u @ r" "\<forall>y\<in>set u. c y" "match_here p r"
        using Cons.IH by blast
      then have "x # xs = (x # u) @ r \<and> (\<forall>y\<in>set (x # u). c y) \<and> match_here p r"
        using 2(1) by simp
      then show ?thesis by blast
    qed
  next
    assume "\<exists>u r. x # xs = u @ r \<and> (\<forall>x\<in>set u. c x) \<and> match_here p r"
    then obtain u r where ur: "x # xs = u @ r" "\<forall>y\<in>set u. c y" "match_here p r" by blast
    show "match_here (Star c # p) (x # xs)"
    proof (cases u)
      case Nil
      then have "match_here p (x # xs)" using ur(1,3) by simp
      then show ?thesis by simp
    next
      case (Cons y u')
      then have "x = y" "xs = u' @ r" "c x" "\<forall>z\<in>set u'. c z" using ur by auto
      then have "match_here (Star c # p) xs" using Cons.IH ur(3) by blast
      then show ?thesis using \<open>c x\<close> by simp
    qed
  qed
qed

lemma re_search_iff: "re_search p s \<longleftrightarrow> (\<exists>u r. s = u @ r \<and> match_here p r)"
proof (induction s)
  case Nil
  show ?case by simp
next
  case (Cons x xs)
  show ?case
  proof
    assume "re_search p (x # xs)"
    then consider "match_here p (x # xs)" | "re_search p xs" by auto
    then show "\<exists>u r. x # xs = u @ r \<and> match_here p r"
    proof cases
      case 1
      then have "x # xs = [] @ (x # xs) \<and> match_here p (x # xs)" by simp
      then show ?thesis by blast
    next
      case 2
      then obtain u r where "xs = u @ r" "match_here p r" using Cons.IH by blast
      then have "x # xs = (x # u) @ r \<and> match_here p r" by simp
      then show ?thesis by blast
    qed
  next
    assume "\<exists>u r. x # xs = u @ r \<and> match_here p r"
    then obtain u r where ur: "x # xs = u @ r" "match_here p r" by blast
    show "re_search p (x # xs)"
    proof (cases u)
      case Nil
      then have "match_here p (x # xs)" using ur by simp
      then show ?thesis by simp
    next
      case (Cons y u')
      then have "xs = u' @ r" using ur by simp
      then have "re_search p xs" using Cons.IH ur(2) by blast
      then show ?thesis by simp
    qed
  qed
qed

text \<open>A pattern that matches wherever another does is found wherever the other is.\<close>

lemma re_search_mono:
  "(\<And>r. match_here p r \<Longrightarrow> match_here q r) \<Longrightarrow> re_search p s \<Longrightarrow> re_search q s"
  unfolding re_search_iff by blast

lemma match_here_Ch_mono:
  "(\<And>r. match_here p r \<Longrightarrow> match_here q r) \<Longrightarrow>
     match_here (Ch c # p) s \<Longrightarrow> match_here (Ch c # q) s"
  unfolding match_here_Ch by blast

lemma match_here_lit_mono:
  "(\<And>r. match_here p r \<Longrightarrow> match_here q r) \<Longrightarrow>
     match_here (lit w @ p) s \<Longrightarrow> match_here (lit w @ q) s"
  unfolding match_here_lit by blast

text \<open>A starred class takes in a word of the class that stands before it, or in its place.\<close>

lemma star_absorbs_lit:
  assumes "\<forall>x\<in>set w. c x" and "match_here (lit w @ Star c # p) s"
  shows "match_here (Star c # p) s"
proof -
  obtain r where r: "s = w @ r" "match_here (Star c # p) r"
    using assms(2) unfolding match_here_lit by blast
  then obtain u r' where u: "r = u @ r'" "\<forall>x\<in>set u. c x" "match_here p r'"
    unfolding match_here_Star by blast
  have "s = (w @ u) @ r' \<and> (\<forall>x\<in>set (w @ u). c x) \<and> match_here p r'"
    using r(1) u assms(1) by auto
  then show ?thesis unfolding match_here_Star by blast
qed

lemma star_replaces_lit:
  assumes "\<forall>x\<in>set w. c x" and "match_here (lit w @ p) s"
  shows "match_here (Star c # p) s"
proof -
  obtain r where "s = w @ r" "match_here p r" using assms(2) unfolding match_here_lit by blast
  then have "s = w @ r \<and> (\<forall>x\<in>set w. c x) \<and> match_here p r" using assms(1) by simp
  then show ?thesis unfolding match_here_Star by blast
qed

lemma whenever_another_dies:
  assumes "re_search (cls ''Ww'' # lit ''henever another '' @ dot_star # lit '' dies'') s"
  shows "re_search (cls ''Ww'' # lit ''henever '' @ dot_star # lit '' dies'') s"
proof (rule re_search_mono[OF _ assms])
  fix r
  have split: "lit ''henever another '' = lit ''henever '' @ lit ''another ''"
    by (simp add: lit_def)
  have nl: "\<forall>x\<in>set ''another ''. x \<noteq> CHR 0x0A" by simp
  assume "match_here (cls ''Ww'' # lit ''henever another '' @ dot_star # lit '' dies'') r"
  then have "match_here (Ch (\<lambda>x. x \<in> set ''Ww'')
               # (lit ''henever '' @ (lit ''another '' @ Star (\<lambda>x. x \<noteq> CHR 0x0A) # lit '' dies''))) r"
    unfolding cls_def dot_star_def split by simp
  then have "match_here (Ch (\<lambda>x. x \<in> set ''Ww'')
               # (lit ''henever '' @ (Star (\<lambda>x. x \<noteq> CHR 0x0A) # lit '' dies''))) r"
  proof (rule match_here_Ch_mono[rotated])
    fix r1
    assume "match_here (lit ''henever '' @ (lit ''another '' @ Star (\<lambda>x. x \<noteq> CHR 0x0A) # lit '' dies'')) r1"
    then show "match_here (lit ''henever '' @ (Star (\<lambda>x. x \<noteq> CHR 0x0A) # lit '' dies'')) r1"
    proof (rule match_here_lit_mono[rotated])
      fix r2
      assume "match_here (lit ''another '' @ Star (\<lambda>x. x \<noteq> CHR 0x0A) # lit '' dies'') r2"
      with nl show "match_here (Star (\<lambda>x. x \<noteq> CHR 0x0A) # lit '' dies'') r2"
        by (rule star_absorbs_lit)
    qed
  qed
  then show "match_here (cls ''Ww'' # lit ''henever '' @ dot_star # lit '' dies'') r"
    unfolding cls_def dot_star_def by simp
qed

lemma whenever_a_creature_dies:
  assumes "re_search (cls ''Ww'' # lit ''henever a creature dies'') s"
  shows "re_search (cls ''Ww'' # lit ''henever '' @ dot_star # lit '' dies'') s"
proof (rule re_search_mono[OF _ assms])
  fix r
  have split: "lit ''henever a creature dies'' = lit ''henever '' @ (lit ''a creature'' @ lit '' dies'')"
    by (simp add: lit_def)
  have nl: "\<forall>x\<in>set ''a creature''. x \<noteq> CHR 0x0A" by simp
  assume "match_here (cls ''Ww'' # lit ''henever a creature dies'') r"
  then have "match_here (Ch (\<lambda>x. x \<in> set ''Ww'')
               # (lit ''henever '' @ (lit ''a creature'' @ lit '' dies''))) r"
    unfolding cls_def split by simp
  then have "match_here (Ch (\<lambda>x. x \<in> set ''Ww'')
               # (lit ''henever '' @ (Star (\<lambda>x. x \<noteq> CHR 0x0A) # lit '' dies''))) r"
  proof (rule match_here_Ch_mono[rotated])
    fix r1
    assume "match_here (lit ''henever '' @ (lit ''a creature'' @ lit '' dies'')) r1"
    then show "match_here (lit ''henever '' @ (Star (\<lambda>x. x \<noteq> CHR 0x0A) # lit '' dies'')) r1"
    proof (rule match_here_lit_mono[rotated])
      fix r2
      assume "match_here (lit ''a creature'' @ lit '' dies'') r2"
      with nl show "match_here (Star (\<lambda>x. x \<noteq> CHR 0x0A) # lit '' dies'') r2"
        by (rule star_replaces_lit)
    qed
  qed
  then show "match_here (cls ''Ww'' # lit ''henever '' @ dot_star # lit '' dies'') r"
    unfolding cls_def dot_star_def by simp
qed

text \<open>Every death trigger the detector knows is one that the card recognises.\<close>

lemma death_pattern_has_death_trigger:
  assumes "any_search death_trigger_patterns (oracle_text c)"
  shows "has_death_trigger c"
proof -
  let ?t = "oracle_text c"
  let ?whenever = "cls ''Ww'' # lit ''henever '' @ dot_star # lit '' dies''"
  let ?when = "cls ''Ww'' # lit ''hen '' @ dot_star # lit '' dies''"
  from assms consider "re_search ?whenever ?t" | "re_search ?when ?t"
    | "re_search (cls ''Ww'' # lit ''henever another '' @ dot_star # lit '' dies'') ?t"
    | "re_search (cls ''Ww'' # lit ''henever a creature dies'') ?t"
    by (auto simp: any_search_def death_trigger_patterns_def)
  then have "re_search ?whenever ?t \<or> re_search ?when ?t"
  proof cases
    case 1 then show ?thesis by simp
  next
    case 2 then show ?thesis by simp
  next
    case 3 then show ?thesis using whenever_another_dies by blast
  next
    case 4 then show ?thesis using whenever_a_creature_dies by blast
  qed
  then show ?thesis by (auto simp: has_death_trigger_def any_search_def)
qed

section \<open>What the checks of the detector emit\<close>

lemma mk_fields [simp]:
  "source_id (mk_interaction s t ty w d) = s" "target_id (mk_interaction s t ty w d) = t"
  "interaction_type (mk_interaction s t ty w d) = ty" "weight (mk_interaction s t ty w d) = w"
  by (simp_all add: mk_interaction_def)

lemma sacrifice_shape:
  "i \<in> set (check_sacrifice_synergy card1 card2) \<Longrightarrow>
     ends_in i card1 card2 \<and> interaction_type i \<in> {DEATH_CHAIN, SACRIFICE_OUTLET}"
  by (auto simp: check_sacrifice_synergy_def Let_def ends_in_def split: if_splits)

lemma etb_shape:
  "i \<in> set (check_etb_synergy card1 card2) \<Longrightarrow>
     ends_in i card1 card2 \<and> interaction_type i = ETB_CHAIN"
  by (auto simp: check_etb_synergy_def Let_def ends_in_def split: if_splits)

lemma counter_shape:
  "i \<in> set (check_counter_synergy card1 card2) \<Longrightarrow>
     ends_in i card1 card2 \<and> interaction_type i = COUNTER_SYNERGY"
  by (auto simp: check_counter_synergy_def Let_def ends_in_def split: if_splits)

lemma tribal_shape:
  "i \<in> set (check_tribal_synergy card1 card2) \<Longrightarrow>
     ends_in i card1 card2 \<and> interaction_type i = TRIBAL"
  by (auto simp: check_tribal_synergy_def Let_def ends_in_def split: if_splits)

lemma type_matters_shape:
  "i \<in> set (check_type_matters card1 card2) \<Longrightarrow>
     ends_in i card1 card2 \<and> interaction_type i = TYPE_MATTERS"
  by (auto simp: check_type_matters_def Let_def ends_in_def split: if_splits)

lemma mana_shape:
  "i \<in> set (check_mana_relationship card1 card2) \<Longrightarrow>
     ends_in i card1 card2 \<and> interaction_type i = MANA_ENABLES"
  by (auto simp: check_mana_relationship_def Let_def ends_in_def split: if_splits)

lemma keyword_shape:
  "i \<in> set (check_keyword_synergy card1 card2) \<Longrightarrow>
     ends_in i card1 card2 \<and> interaction_type i \<in> {BUFFS, ENABLES}"
  by (auto simp: check_keyword_synergy_def Let_def ends_in_def split: if_splits)

lemma tutor_shape:
  "i \<in> set (check_tutor_relationship card1 card2) \<Longrightarrow>
     ends_in i card1 card2 \<and> interaction_type i = TUTORS"
  by (auto simp: check_tutor_relationship_def ends_in_def)

lemma pair_ends: "i \<in> set (detect_pair_interactions card1 card2) \<Longrightarrow> ends_in i card1 card2"
  unfolding detect_pair_interactions_def set_append Un_iff
  using sacrifice_shape[of i card1 card2] etb_shape[of i card1 card2]
    counter_shape[of i card1 card2] tribal_shape[of i card1 card2]
    type_matters_shape[of i card1 card2] mana_shape[of i card1 card2]
    keyword_shape[of i card1 card2] tutor_shape[of i card1 card2] by auto

lemma pair_mana:
  "i \<in> set (detect_pair_interactions card1 card2) \<Longrightarrow> interaction_type i = MANA_ENABLES \<Longrightarrow>
     i \<in> set (check_mana_relationship card1 card2)"
  unfolding detect_pair_interactions_def set_append Un_iff
  using sacrifice_shape[of i card1 card2] etb_shape[of i card1 card2]
    counter_shape[of i card1 card2] tribal_shape[of i card1 card2]
    type_matters_shape[of i card1 card2] keyword_shape[of i card1 card2]
    tutor_shape[of i card1 card2] by auto

lemma detect_all_pairs:
  "detect_all cs = concat (map (\<lambda>(a, b). detect_pair_interactions a b) (pairs_of cs))"
  by (induction cs) (simp_all add: comp_def)

lemma pairs_of_mem:
  "(a, b) \<in> set (pairs_of cs) \<Longrightarrow> a \<in> set cs \<and> b \<in> set cs"
  by (induction cs) auto

lemma pairs_of_distinct:
  "(a, b) \<in> set (pairs_of cs) \<Longrightarrow> distinct (map f cs) \<Longrightarrow> f a \<noteq> f b"
proof (induction cs)
  case Nil
  then show ?case by simp
next
  case (Cons c cs)
  from Cons.prems(1) consider "a = c \<and> b \<in> set cs" | "(a, b) \<in> set (pairs_of cs)" by auto
  then show ?case
  proof cases
    case 1
    then show ?thesis using Cons.prems(2) by auto
  next
    case 2
    then show ?thesis using Cons.IH Cons.prems(2) by simp
  qed
qed

lemma pairs_of_total:
  "a \<in> set cs \<Longrightarrow> b \<in> set cs \<Longrightarrow> a \<noteq> b \<Longrightarrow>
     (a, b) \<in> set (pairs_of cs) \<or> (b, a) \<in> set (pairs_of cs)"
  by (induction cs) auto

lemma detect_all_mem:
  "i \<in> set (detect_all cs) \<longleftrightarrow>
     (\<exists>a b. (a, b) \<in> set (pairs_of cs) \<and> i \<in> set (detect_pair_interactions a b))"
  unfolding detect_all_pairs by auto

lemma detect_all_ends:
  assumes "i \<in> set (detect_all cs)" and "distinct (map card_id cs)"
  shows "source_id i \<noteq> target_id i"
proof -
  obtain a b where ab: "(a, b) \<in> set (pairs_of cs)" "i \<in> set (detect_pair_interactions a b)"
    using assms(1) unfolding detect_all_mem by blast
  have "card_id a \<noteq> card_id b" using ab(1) assms(2) by (rule pairs_of_distinct)
  moreover have "ends_in i a b" using ab(2) by (rule pair_ends)
  ultimately show ?thesis by (auto simp: ends_in_def)
qed

lemma no_self_loops_add:
  "no_self_loops g \<Longrightarrow> source_id i \<noteq> target_id i \<Longrightarrow> no_self_loops (add_interaction g i)"
proof (cases "adj g (source_id i) (target_id i)")
  case None
  assume "no_self_loops g" "source_id i \<noteq> target_id i"
  then show ?thesis
    using None by (auto simp: no_self_loops_def add_interaction_def add_edge_def set_edge_def)
next
  case (Some e)
  assume "no_self_loops g" "source_id i \<noteq> target_id i"
  then show ?thesis
    using Some by (auto simp: no_self_loops_def add_interaction_def set_edge_def Let_def)
qed

lemma no_self_loops_ingest:
  "no_self_loops g \<Longrightarrow> \<forall>i\<in>set xs. source_id i \<noteq> target_id i \<Longrightarrow> no_self_loops (ingest g xs)"
  unfolding ingest_def by (induction xs arbitrary: g) (simp_all add: no_self_loops_add)

lemma smoke_detect:
  "map (\<lambda>i. (source_id i, target_id i, interaction_type i, weight i))
       (detect_all [smoke_c1, smoke_c2, smoke_c3])
   = [(''c1'', ''c2'', DEATH_CHAIN, 8/10), (''c1'', ''c2'', SACRIFICE_OUTLET, 7/10),
      (''c1'', ''c2'', TYPE_MATTERS, 6/10), (''c1'', ''c3'', MANA_ENABLES, 6/10),
      (''c3'', ''c2'', TYPE_MATTERS, 6/10)]"
  by code_simp

section \<open>The mana relationship\<close>

lemma mana_mem:
  "i \<in> set (check_mana_relationship card1 card2) \<longleftrightarrow>
     (mana_rule card1 card2 \<and> i = mana_interaction card1 card2)
     \<or> (mana_rule card2 card1 \<and> i = mana_interaction card2 card1)"
  by (auto simp: check_mana_relationship_def mana_rule_def mana_interaction_def Let_def)

lemma mana_in_pair:
  "set (check_mana_relationship card1 card2) \<subseteq> set (detect_pair_interactions card1 card2)"
  by (auto simp: detect_pair_interactions_def)

lemma mana_interaction_fields [simp]:
  "source_id (mana_interaction s t) = card_id s" "target_id (mana_interaction s t) = card_id t"
  "interaction_type (mana_interaction s t) = MANA_ENABLES"
  "weight (mana_interaction s t) = min (4/10 + cmc t * (5/100)) (8/10)"
  by (simp_all add: mana_interaction_def)

lemma pair_mana_iff:
  "i \<in> set (detect_pair_interactions card1 card2) \<and> interaction_type i = MANA_ENABLES \<longleftrightarrow>
     (mana_rule card1 card2 \<and> i = mana_interaction card1 card2)
     \<or> (mana_rule card2 card1 \<and> i = mana_interaction card2 card1)"
proof
  assume "i \<in> set (detect_pair_interactions card1 card2) \<and> interaction_type i = MANA_ENABLES"
  then have "i \<in> set (check_mana_relationship card1 card2)" using pair_mana by blast
  then show "(mana_rule card1 card2 \<and> i = mana_interaction card1 card2)
     \<or> (mana_rule card2 card1 \<and> i = mana_interaction card2 card1)" by (simp add: mana_mem)
next
  assume a: "(mana_rule card1 card2 \<and> i = mana_interaction card1 card2)
     \<or> (mana_rule card2 card1 \<and> i = mana_interaction card2 card1)"
  then have "i \<in> set (check_mana_relationship card1 card2)" by (simp add: mana_mem)
  then have "i \<in> set (detect_pair_interactions card1 card2)" using mana_in_pair by blast
  moreover have "interaction_type i = MANA_ENABLES" using a by auto
  ultimately show "i \<in> set (detect_pair_interactions card1 card2) \<and> interaction_type i = MANA_ENABLES"
    by simp
qed

text \<open>Among cards of distinct ids, the mana interactions from \<open>s\<close> to \<open>t\<close>.\<close>

lemma detect_all_mana:
  assumes d: "distinct (map card_id cs)" and s: "s \<in> set cs" and t: "t \<in> set cs" and ne: "s \<noteq> t"
  shows "i \<in> set (detect_all cs) \<and> interaction_type i = MANA_ENABLES
           \<and> source_id i = card_id s \<and> target_id i = card_id t
         \<longleftrightarrow> mana_rule s t \<and> i = mana_interaction s t"
proof
  assume a: "i \<in> set (detect_all cs) \<and> interaction_type i = MANA_ENABLES
           \<and> source_id i = card_id s \<and> target_id i = card_id t"
  then obtain a' b' where ab: "(a', b') \<in> set (pairs_of cs)"
    "i \<in> set (detect_pair_interactions a' b')"
    unfolding detect_all_mem by blast
  have mem: "a' \<in> set cs" "b' \<in> set cs" using pairs_of_mem[OF ab(1)] by simp_all
  have inj: "inj_on card_id (set cs)" using d by (simp add: distinct_map)
  have st: "card_id s \<noteq> card_id t" using inj s t ne by (auto dest: inj_onD)
  from ab(2) a have
    "(mana_rule a' b' \<and> i = mana_interaction a' b') \<or> (mana_rule b' a' \<and> i = mana_interaction b' a')"
    using pair_mana_iff[of i a' b'] by blast
  then show "mana_rule s t \<and> i = mana_interaction s t"
  proof
    assume r: "mana_rule a' b' \<and> i = mana_interaction a' b'"
    then have "card_id a' = card_id s" "card_id b' = card_id t" using a by auto
    then have "a' = s" "b' = t" using inj mem s t by (auto dest: inj_onD)
    then show ?thesis using r by simp
  next
    assume r: "mana_rule b' a' \<and> i = mana_interaction b' a'"
    then have "card_id b' = card_id s" "card_id a' = card_id t" using a by auto
    then have "b' = s" "a' = t" using inj mem s t by (auto dest: inj_onD)
    then show ?thesis using r by simp
  qed
next
  assume r: "mana_rule s t \<and> i = mana_interaction s t"
  from pairs_of_total[OF s t ne] have "i \<in> set (detect_all cs)"
  proof
    assume "(s, t) \<in> set (pairs_of cs)"
    moreover have "i \<in> set (detect_pair_interactions s t)"
      using r pair_mana_iff[of i s t] by blast
    ultimately show ?thesis unfolding detect_all_mem by blast
  next
    assume "(t, s) \<in> set (pairs_of cs)"
    moreover have "i \<in> set (detect_pair_interactions t s)"
      using r pair_mana_iff[of i t s] by blast
    ultimately show ?thesis unfolding detect_all_mem by blast
  qed
  then show "i \<in> set (detect_all cs) \<and> interaction_type i = MANA_ENABLES
           \<and> source_id i = card_id s \<and> target_id i = card_id t"
    using r by simp
qed

section \<open>The sacrifice check\<close>

lemma sacrifice_in_pair:
  "set (check_sacrifice_synergy card1 card2) \<subseteq> set (detect_pair_interactions card1 card2)"
  by (auto simp: detect_pair_interactions_def)

lemma death_chain_emitted:
  assumes "any_search sacrifice_outlet_patterns (oracle_text a)"
    and "any_search death_trigger_patterns (oracle_text b)"
  shows "death_chain a b \<in> set (check_sacrifice_synergy a b)"
    and "death_chain a b \<in> set (check_sacrifice_synergy b a)"
  using assms by (simp_all add: check_sacrifice_synergy_def death_chain_def Let_def)

lemma sacrifice_outlet_emitted:
  assumes "any_search sacrifice_outlet_patterns (oracle_text a)"
    and "has_death_trigger b" and "is_creature b"
  shows "sacrifice_outlet a b \<in> set (check_sacrifice_synergy a b)"
    and "sacrifice_outlet a b \<in> set (check_sacrifice_synergy b a)"
  using assms by (simp_all add: check_sacrifice_synergy_def sacrifice_outlet_def Let_def)

lemma detect_all_either:
  assumes "a \<in> set cs" and "b \<in> set cs" and "a \<noteq> b"
    and "i \<in> set (detect_pair_interactions a b)" and "i \<in> set (detect_pair_interactions b a)"
  shows "i \<in> set (detect_all cs)"
  using pairs_of_total[OF assms(1-3)] assms(4,5) unfolding detect_all_mem by blast

section \<open>The claims about merging\<close>

text \<open>
  Claim C1, as the code has it. The interaction type is appended to the list of an
  existing edge whether or not the list holds it already. Ingesting the same list of
  interactions a second time therefore leaves the nodes, the set of edges and the weight
  and description of every edge as the first pass left them, and lengthens the type list
  of every edge by the types of all the interactions of the list between its two ends:
  the list then holds each of them again.
\<close>

theorem ingest_twice:
  assumes "sym_adj g"
  shows "nodes (ingest (ingest g xs) xs) = nodes (ingest g xs)
       \<and> (has_edge (ingest (ingest g xs) xs) x y \<longleftrightarrow> has_edge (ingest g xs) x y)
       \<and> (\<forall>e1. adj (ingest g xs) x y = Some e1 \<longrightarrow>
            (\<exists>e2. adj (ingest (ingest g xs) xs) x y = Some e2
                \<and> edge_weight e2 = edge_weight e1
                \<and> edge_description e2 = edge_description e1
                \<and> types_of e2 = types_of e1
                    @ map (\<lambda>i. type_value (interaction_type i)) (filter (\<lambda>i. touches i x y) xs)))"
proof -
  let ?g1 = "ingest g xs"
  let ?ys = "filter (\<lambda>i. touches i x y) xs"
  have s1: "sym_adj ?g1" using assms by (rule sym_adj_ingest)
  have a1: "adj ?g1 x y = edge_after (adj g x y) ?ys" using assms by (rule adj_ingest)
  have a2: "adj (ingest ?g1 xs) x y = edge_after (edge_after (adj g x y) ?ys) ?ys"
    using adj_ingest[OF s1, of xs x y] a1 by simp
  have n: "nodes (ingest ?g1 xs) = nodes ?g1"
    by (rule nodes_ingest_existing) (simp add: adj_after_ingest)
  have h: "has_edge (ingest ?g1 xs) x y \<longleftrightarrow> has_edge ?g1 x y"
    unfolding has_edge_def a2 a1 by (simp add: edge_after_None_iff)
  have e: "\<forall>e1. adj ?g1 x y = Some e1 \<longrightarrow>
            (\<exists>e2. adj (ingest ?g1 xs) x y = Some e2
                \<and> edge_weight e2 = edge_weight e1
                \<and> edge_description e2 = edge_description e1
                \<and> types_of e2 = types_of e1 @ map (\<lambda>i. type_value (interaction_type i)) ?ys)"
    unfolding a2 a1 using edge_after_twice by blast
  show ?thesis using n h e by blast
qed

theorem ingest_twice_witness:
  "sym_adj empty_graph
   \<and> nodes (ingest (ingest empty_graph [ex_i1, ex_i2]) [ex_i1, ex_i2])
       = nodes (ingest empty_graph [ex_i1, ex_i2])
   \<and> has_edge (ingest (ingest empty_graph [ex_i1, ex_i2]) [ex_i1, ex_i2]) ''a'' ''b''
   \<and> map_option edge_weight (adj (ingest (ingest empty_graph [ex_i1, ex_i2]) [ex_i1, ex_i2]) ''a'' ''b'')
       = Some (Some (9/10))
   \<and> map_option types_of (adj (ingest (ingest empty_graph [ex_i1, ex_i2]) [ex_i1, ex_i2]) ''a'' ''b'')
       = Some [''death_chain'', ''tribal'', ''death_chain'', ''tribal'']"
proof -
  let ?xs = "[ex_i1, ex_i2]"
  let ?e1 = "\<lparr>interaction_types = Some [''death_chain'', ''tribal''],
               edge_weight = Some (9/10), edge_description = Some (Some ''first'')\<rparr>"
  have a1: "adj (ingest empty_graph ?xs) ''a'' ''b'' = Some ?e1"
    by (simp add: ingest_def add_interaction_def add_edge_def set_edge_def empty_graph_def
        ex_i1_def ex_i2_def mk_interaction_def)
  have f: "map (\<lambda>i. type_value (interaction_type i)) (filter (\<lambda>i. touches i ''a'' ''b'') ?xs)
             = [''death_chain'', ''tribal'']"
    by (simp add: touches_def ex_i1_def ex_i2_def mk_interaction_def)
  have h: "has_edge (ingest empty_graph ?xs) ''a'' ''b''" using a1 by (simp add: has_edge_def)
  from ingest_twice[OF sym_adj_empty, of ?xs "''a''" "''b''"] a1 h f show ?thesis
    using sym_adj_empty by (auto simp: types_of_def)
qed

text \<open>
  Claim C1 as stated fails: after a second pass over a single interaction the edge is
  not the edge of the first pass, its type list holds \<open>death_chain\<close> twice.
\<close>

theorem ingest_twice_counterexample:
  "map_option interaction_types (adj (ingest empty_graph [ex_i1]) ''a'' ''b'')
     = Some (Some [''death_chain''])
   \<and> map_option interaction_types (adj (ingest (ingest empty_graph [ex_i1]) [ex_i1]) ''a'' ''b'')
     = Some (Some [''death_chain'', ''death_chain''])
   \<and> adj (ingest (ingest empty_graph [ex_i1]) [ex_i1]) ''a'' ''b''
       \<noteq> adj (ingest empty_graph [ex_i1]) ''a'' ''b''"
  by (simp add: ingest_def add_interaction_def add_edge_def set_edge_def empty_graph_def
      ex_i1_def mk_interaction_def)

text \<open>
  Claim C4. In a graph with no edge between \<open>a\<close> and \<open>b\<close>, two interactions between
  them, in either direction and with the weights 0.6 and 0.9 in either order, leave one
  attribute dictionary for the pair, filed under both directions: its weight is 0.9 and
  its type list holds both types. Whatever is ingested, the graph keeps one dictionary
  per unordered pair.
\<close>

theorem edge_merge_max:
  assumes "sym_adj g" and "adj g a b = None"
    and "touches i1 a b" and "touches i2 a b"
    and "(weight i1 = 6/10 \<and> weight i2 = 9/10) \<or> (weight i1 = 9/10 \<and> weight i2 = 6/10)"
  shows "adj (ingest g [i1, i2]) a b
           = Some \<lparr>interaction_types =
                     Some [type_value (interaction_type i1), type_value (interaction_type i2)],
                   edge_weight = Some (9/10),
                   edge_description = Some (description i1)\<rparr>
       \<and> adj (ingest g [i1, i2]) b a = adj (ingest g [i1, i2]) a b
       \<and> (\<forall>xs. sym_adj (ingest g xs))"
proof -
  have f: "filter (\<lambda>i. touches i a b) [i1, i2] = [i1, i2]" using assms(3,4) by simp
  have "adj (ingest g [i1, i2]) a b = edge_after None [i1, i2]"
    using adj_ingest[OF assms(1), of "[i1, i2]" a b] assms(2) f by simp
  also have "\<dots> = Some (merge_edge (Some (merge_edge None i1)) i2)" by simp
  also have "\<dots> = Some \<lparr>interaction_types =
                     Some [type_value (interaction_type i1), type_value (interaction_type i2)],
                   edge_weight = Some (9/10),
                   edge_description = Some (description i1)\<rparr>"
    using assms(5) by (auto simp: merge_edge_def types_of_def weight_of_def)
  finally have 1: "adj (ingest g [i1, i2]) a b
           = Some \<lparr>interaction_types =
                     Some [type_value (interaction_type i1), type_value (interaction_type i2)],
                   edge_weight = Some (9/10),
                   edge_description = Some (description i1)\<rparr>" .
  have s: "\<forall>xs. sym_adj (ingest g xs)" using assms(1) by (simp add: sym_adj_ingest)
  then have 2: "adj (ingest g [i1, i2]) b a = adj (ingest g [i1, i2]) a b"
    unfolding sym_adj_def by blast
  show ?thesis using 1 2 s by blast
qed

theorem edge_merge_max_witness:
  "sym_adj empty_graph \<and> adj empty_graph ''a'' ''b'' = None
   \<and> touches ex_i1 ''a'' ''b'' \<and> touches ex_i2 ''a'' ''b''
   \<and> weight ex_i1 = 6/10 \<and> weight ex_i2 = 9/10
   \<and> adj (ingest empty_graph [ex_i1, ex_i2]) ''a'' ''b''
       = Some \<lparr>interaction_types = Some [''death_chain'', ''tribal''],
               edge_weight = Some (9/10), edge_description = Some (Some ''first'')\<rparr>
   \<and> adj (ingest empty_graph [ex_i1, ex_i2]) ''b'' ''a''
       = adj (ingest empty_graph [ex_i1, ex_i2]) ''a'' ''b''
   \<and> sym_adj (ingest empty_graph [ex_i1, ex_i2, ex_i3])"
proof -
  have h2: "adj empty_graph ''a'' ''b'' = None" by (simp add: empty_graph_def)
  have h3: "touches ex_i1 ''a'' ''b''" by (simp add: touches_def ex_i1_def mk_interaction_def)
  have h4: "touches ex_i2 ''a'' ''b''" by (simp add: touches_def ex_i2_def mk_interaction_def)
  have w: "weight ex_i1 = 6/10" "weight ex_i2 = 9/10"
    by (simp_all add: ex_i1_def ex_i2_def mk_interaction_def)
  have h5: "(weight ex_i1 = 6/10 \<and> weight ex_i2 = 9/10)
          \<or> (weight ex_i1 = 9/10 \<and> weight ex_i2 = 6/10)" using w by simp
  have v: "type_value (interaction_type ex_i1) = ''death_chain''"
    "type_value (interaction_type ex_i2) = ''tribal''" "description ex_i1 = Some ''first''"
    by (simp_all add: ex_i1_def ex_i2_def mk_interaction_def)
  from edge_merge_max[OF sym_adj_empty h2 h3 h4 h5] show ?thesis
    using sym_adj_empty h2 h3 h4 w by (simp add: v)
qed

text \<open>
  Claim C9. When the edge of an interaction exists already, adding the interaction
  changes the type list and the weight of that edge and nothing else: the description of
  the edge, every other edge and the nodes stay as they were.
\<close>

theorem merge_frame:
  assumes "adj g (source_id i) (target_id i) = Some e"
  shows "nodes (add_interaction g i) = nodes g
       \<and> (\<forall>x y. \<not> touches i x y \<longrightarrow> adj (add_interaction g i) x y = adj g x y)
       \<and> adj (add_interaction g i) (source_id i) (target_id i)
           = Some (e\<lparr>interaction_types := Some (types_of e @ [type_value (interaction_type i)]),
                     edge_weight := Some (max (weight_of e) (weight i))\<rparr>)
       \<and> adj (add_interaction g i) (target_id i) (source_id i)
           = adj (add_interaction g i) (source_id i) (target_id i)
       \<and> map_option edge_description (adj (add_interaction g i) (source_id i) (target_id i))
           = Some (edge_description e)"
proof -
  have n: "nodes (add_interaction g i) = nodes g"
    using assms by (rule nodes_add_interaction_existing)
  have t: "touches i (source_id i) (target_id i)" "touches i (target_id i) (source_id i)"
    by (simp_all add: touches_def)
  have m: "merge_edge (Some e) i
             = e\<lparr>interaction_types := Some (types_of e @ [type_value (interaction_type i)]),
                 edge_weight := Some (max (weight_of e) (weight i))\<rparr>"
    by (simp add: merge_edge_def)
  show ?thesis
    using n t by (simp add: adj_add_interaction assms m)
qed

theorem merge_frame_witness:
  "adj (ingest empty_graph [ex_i1, ex_i3]) (source_id ex_i2) (target_id ex_i2)
     = Some \<lparr>interaction_types = Some [''death_chain''], edge_weight = Some (6/10),
             edge_description = Some (Some ''first'')\<rparr>
   \<and> nodes (add_interaction (ingest empty_graph [ex_i1, ex_i3]) ex_i2)
       = nodes (ingest empty_graph [ex_i1, ex_i3])
   \<and> adj (add_interaction (ingest empty_graph [ex_i1, ex_i3]) ex_i2) ''c'' ''d''
       = adj (ingest empty_graph [ex_i1, ex_i3]) ''c'' ''d''
   \<and> adj (add_interaction (ingest empty_graph [ex_i1, ex_i3]) ex_i2) ''b'' ''a''
       = Some \<lparr>interaction_types = Some [''death_chain'', ''tribal''], edge_weight = Some (9/10),
               edge_description = Some (Some ''first'')\<rparr>"
proof -
  let ?g = "ingest empty_graph [ex_i1, ex_i3]"
  let ?e = "\<lparr>interaction_types = Some [''death_chain''], edge_weight = Some (6/10),
             edge_description = Some (Some ''first'')\<rparr>"
  have h: "adj ?g (source_id ex_i2) (target_id ex_i2) = Some ?e"
    by (simp add: ingest_def add_interaction_def add_edge_def set_edge_def empty_graph_def
        ex_i1_def ex_i2_def ex_i3_def mk_interaction_def)
  have nt: "\<not> touches ex_i2 ''c'' ''d''"
    by (simp add: touches_def ex_i2_def mk_interaction_def)
  have st: "source_id ex_i2 = ''b''" "target_id ex_i2 = ''a''"
    "type_value (interaction_type ex_i2) = ''tribal''" "weight ex_i2 = 9/10"
    by (simp_all add: ex_i2_def mk_interaction_def)
  from merge_frame[OF h] nt h show ?thesis
    by (simp add: st types_of_def weight_of_def)
qed

section \<open>The claims about the analyzer\<close>

text \<open>
  Claim C6. On a graph with fewer than two nodes the betweenness, closeness and
  eigenvector centralities and the page rank are the empty dictionary and the average
  clustering is 0, whatever the algorithms of the library would do; the average
  clustering is 0 also with fewer than three nodes. No call raises: each result is a
  value.
\<close>

theorem degenerate_graph:
  "(length (nodes g) < 2 \<longrightarrow>
      betweenness_centrality nx g = Inr [] \<and> closeness_centrality nx g = Inr []
      \<and> eigenvector_centrality nx g = Inr [] \<and> pagerank nx g = Inr []
      \<and> average_clustering nx g = Inr 0)
   \<and> (length (nodes g) < 3 \<longrightarrow> average_clustering nx g = Inr 0)"
  by (simp add: betweenness_centrality_def closeness_centrality_def eigenvector_centrality_def
      pagerank_def average_clustering_def)

theorem degenerate_graph_witness:
  "length (nodes one_node_graph) < 2
   \<and> betweenness_centrality nx_raising one_node_graph = Inr []
   \<and> closeness_centrality nx_raising one_node_graph = Inr []
   \<and> eigenvector_centrality nx_raising one_node_graph = Inr []
   \<and> pagerank nx_raising one_node_graph = Inr []
   \<and> average_clustering nx_raising one_node_graph = Inr 0
   \<and> length (nodes two_node_graph) < 3
   \<and> average_clustering nx_raising two_node_graph = Inr 0"
proof -
  have h1: "length (nodes one_node_graph) < 2" by (simp add: one_node_graph_def)
  have h2: "length (nodes two_node_graph) < 3" by (simp add: two_node_graph_def)
  from degenerate_graph[of one_node_graph nx_raising] degenerate_graph[of two_node_graph nx_raising]
  show ?thesis using h1 h2 by blast
qed

text \<open>
  Claim C7. With fewer than two nodes \<open>detect_communities\<close> returns one community,
  the list of all nodes. Otherwise, when the community algorithm cannot be imported or
  raises, the result is that of \<open>connected_components\<close>, and the exception is not
  passed on.
\<close>

theorem community_fallback:
  "(length (nodes g) < 2 \<longrightarrow> detect_communities nx g = Inr [node_ids g])
   \<and> (2 \<le> length (nodes g) \<longrightarrow>
        (import_louvain_communities nx = Inl e
         \<or> (import_louvain_communities nx = Inr louvain \<and> louvain g = Inl e)) \<longrightarrow>
        detect_communities nx g = connected_components nx g)"
  by (auto simp: detect_communities_def)

theorem community_fallback_witness:
  "length (nodes one_node_graph) < 2
   \<and> detect_communities nx_raising one_node_graph = Inr [[''a'']]
   \<and> 2 \<le> length (nodes two_node_graph)
   \<and> import_louvain_communities nx_raising = Inl ImportError
   \<and> detect_communities nx_raising two_node_graph = Inr [[''a''], [''b'']]
   \<and> detect_communities nx_louvain_raises two_node_graph = Inr [[''a''], [''b'']]"
proof -
  have h1: "length (nodes one_node_graph) < 2" by (simp add: one_node_graph_def)
  have h2: "2 \<le> length (nodes two_node_graph)" by (simp add: two_node_graph_def)
  have h3: "import_louvain_communities nx_raising = Inl ImportError"
    by (simp add: nx_raising_def)
  have h4: "import_louvain_communities nx_louvain_raises = Inr (\<lambda>g. Inl (OtherException ''louvain''))"
    by (simp add: nx_louvain_raises_def)
  have cc: "connected_components nx_raising two_node_graph = Inr [[''a''], [''b'']]"
    "connected_components nx_louvain_raises two_node_graph = Inr [[''a''], [''b'']]"
    by (simp_all add: connected_components_def nx_raising_def nx_louvain_raises_def
        two_node_graph_def node_ids_def)
  have n1: "node_ids one_node_graph = [''a'']" by (simp add: node_ids_def one_node_graph_def)
  from community_fallback[of one_node_graph nx_raising ImportError]
    community_fallback[of two_node_graph nx_raising ImportError]
    community_fallback[of two_node_graph nx_louvain_raises "OtherException ''louvain''"
       "\<lambda>g. Inl (OtherException ''louvain'')"]
  show ?thesis using h1 h2 h3 h4 cc n1 by simp
qed

text \<open>
  Claim C8. When the four metrics are computed, \<open>key_cards\<close> with \<open>top_n = N\<close>, a
  count \<open>N \<ge> 0\<close>, returns the first \<open>N\<close> entries of a ranking of the nodes, so at
  most \<open>N\<close> entries. The ranking has one entry per node; the composite score of a node is
  0.3 times its degree centrality plus 0.3 times its betweenness plus 0.3 times its page
  rank plus 0.1 times its clustering coefficient, a metric without a value for the node
  counting as 0; the ranking is in descending order of the composite score, and the
  entries of one score stand in the order of the nodes. (For a negative \<open>top_n\<close> the
  slice of Python drops entries from the end instead.)
\<close>

theorem key_cards_ranked:
  assumes "0 \<le> top_n"
    and "degree_centrality nx g = Inr dg" and "betweenness_centrality nx g = Inr bt"
    and "pagerank nx g = Inr pr" and "clustering_coefficient nx g = Inr cl"
  shows "\<exists>ranked.
           key_cards nx g top_n = Inr (take (nat top_n) ranked)
         \<and> length (take (nat top_n) ranked) \<le> nat top_n
         \<and> mset ranked = mset (score_items dg bt pr cl g)
         \<and> (\<forall>(n, m) \<in> set ranked.
               composite m = get0 dg n * (3/10) + get0 bt n * (3/10)
                             + get0 pr n * (3/10) + get0 cl n * (1/10))
         \<and> sorted_wrt (\<lambda>a b. composite (snd b) \<le> composite (snd a)) ranked
         \<and> (\<forall>c. filter (\<lambda>x. composite (snd x) = c) ranked
                   = filter (\<lambda>x. composite (snd x) = c) (score_items dg bt pr cl g))"
proof -
  let ?items = "score_items dg bt pr cl g"
  let ?ranked = "sorted_reverse (\<lambda>x. composite (snd x)) ?items"
  have 1: "key_cards nx g top_n = Inr (take (nat top_n) ?ranked)"
    using assms by (simp add: key_cards_Inr slice_to_def)
  have 2: "length (take (nat top_n) ?ranked) \<le> nat top_n" by simp
  have 3: "mset ?ranked = mset ?items" by (rule mset_sorted_reverse)
  have "set ?ranked = set ?items" using 3 by (rule mset_eq_setD)
  then have 4: "\<forall>(n, m) \<in> set ?ranked.
               composite m = get0 dg n * (3/10) + get0 bt n * (3/10)
                             + get0 pr n * (3/10) + get0 cl n * (1/10)"
    by (auto simp: score_items_def node_metrics_def)
  have 5: "sorted_wrt (\<lambda>a b. composite (snd b) \<le> composite (snd a)) ?ranked"
    by (rule sorted_sorted_reverse)
  have 6: "\<forall>c. filter (\<lambda>x. composite (snd x) = c) ?ranked
                   = filter (\<lambda>x. composite (snd x) = c) ?items"
    by (simp add: filter_sorted_reverse)
  show ?thesis using 1 2 3 4 5 6 by blast
qed

theorem key_cards_ranked_witness:
  "(0::int) \<le> 2
   \<and> degree_centrality nx_example three_node_graph = Inr [(''a'', 1/2), (''b'', 1), (''c'', 1/2)]
   \<and> betweenness_centrality nx_example three_node_graph = Inr [(''b'', 1)]
   \<and> pagerank nx_example three_node_graph = Inr [(''a'', 1/4), (''b'', 1/2), (''c'', 1/4)]
   \<and> clustering_coefficient nx_example three_node_graph = Inr []
   \<and> key_cards nx_example three_node_graph 2
       = Inr [(''b'', \<lparr>composite = 3/4, degree = 1, betweenness = 1, pagerank_score = 1/2,
                       clustering = 0\<rparr>),
              (''a'', \<lparr>composite = 9/40, degree = 1/2, betweenness = 0, pagerank_score = 1/4,
                       clustering = 0\<rparr>)]"
proof -
  have h0: "(0::int) \<le> 2" by simp
  have h1: "degree_centrality nx_example three_node_graph = Inr [(''a'', 1/2), (''b'', 1), (''c'', 1/2)]"
    by (simp add: degree_centrality_def nx_example_def)
  have h2: "betweenness_centrality nx_example three_node_graph = Inr [(''b'', 1)]"
    by (simp add: betweenness_centrality_def nx_example_def three_node_graph_def)
  have h3: "pagerank nx_example three_node_graph = Inr [(''a'', 1/4), (''b'', 1/2), (''c'', 1/4)]"
    by (simp add: pagerank_def nx_example_def three_node_graph_def)
  have h4: "clustering_coefficient nx_example three_node_graph = Inr []"
    by (simp add: clustering_coefficient_def nx_example_def)
  have items: "score_items [(''a'', 1/2), (''b'', 1), (''c'', 1/2)] [(''b'', 1)]
                 [(''a'', 1/4), (''b'', 1/2), (''c'', 1/4)] [] three_node_graph
      = [(''a'', \<lparr>composite = 9/40, degree = 1/2, betweenness = 0, pagerank_score = 1/4,
                       clustering = 0\<rparr>),
         (''b'', \<lparr>composite = 3/4, degree = 1, betweenness = 1, pagerank_score = 1/2,
                       clustering = 0\<rparr>),
         (''c'', \<lparr>composite = 9/40, degree = 1/2, betweenness = 0, pagerank_score = 1/4,
                       clustering = 0\<rparr>)]"
    by (simp add: score_items_def node_metrics_def get0_def three_node_graph_def node_ids_def)
  have k: "key_cards nx_example three_node_graph 2
       = Inr [(''b'', \<lparr>composite = 3/4, degree = 1, betweenness = 1, pagerank_score = 1/2,
                       clustering = 0\<rparr>),
              (''a'', \<lparr>composite = 9/40, degree = 1/2, betweenness = 0, pagerank_score = 1/4,
                       clustering = 0\<rparr>)]"
    unfolding key_cards_Inr[OF h1 h2 h3 h4] items
    by (simp add: sorted_reverse_def slice_to_def)
  from key_cards_ranked[OF h0 h1 h2 h3 h4] show ?thesis
    using h1 h2 h3 h4 k by simp
qed

section \<open>The claims about the weighter\<close>

text \<open>
  Claim C2, as the code has it. \<open>get_category\<close> looks a tag up among the keywords of
  each category, and \<open>recursion\<close> and \<open>graveyard\<close> are names of categories, not
  keywords: each falls back to \<open>other\<close>, of weight 1.0. With the default weights the
  score of the tags \<open>recursion\<close>, \<open>graveyard\<close> is therefore 2.0, and 7.0 when the name of
  either card is part of the text of the other. Tags that are keywords of the two
  categories, such as \<open>persist\<close> (recursion, 1.5) and \<open>mill\<close> (graveyard, 1.4), score 2.9,
  and 7.9 with the bonus.
\<close>

theorem synergy_score_example:
  "calculate_synergy_score (new_SynergyWeighter None) card1 card2 [''recursion'', ''graveyard'']
     = (if py_in (name card1) (oracle_text card2) \<or> py_in (name card2) (oracle_text card1)
        then 7 else 2)
   \<and> calculate_synergy_score (new_SynergyWeighter None) card1 card2 [''persist'', ''mill'']
     = (if py_in (name card1) (oracle_text card2) \<or> py_in (name card2) (oracle_text card1)
        then 79/10 else 29/10)"
  by (simp add: calculate_synergy_score_def get_category_examples default_weights
      check_direct_reference_def DEFAULT_CONSTANT_C_def)

text \<open>
  Claim C2 as stated fails: for two cards that do not name each other the score of the
  tags \<open>recursion\<close>, \<open>graveyard\<close> is 2, not 2.9, and for a card that names the other it
  is 7, not 7.9.
\<close>

theorem synergy_score_counterexample:
  "\<not> py_in (name smoke_c1) (oracle_text smoke_c2)
   \<and> \<not> py_in (name smoke_c2) (oracle_text smoke_c1)
   \<and> calculate_synergy_score (new_SynergyWeighter None) smoke_c1 smoke_c2
        [''recursion'', ''graveyard''] = 2
   \<and> py_in (name smoke_c2) (oracle_text ex_namer)
   \<and> calculate_synergy_score (new_SynergyWeighter None) ex_namer smoke_c2
        [''recursion'', ''graveyard''] = 7"
proof -
  have a: "\<not> py_in (name smoke_c1) (oracle_text smoke_c2)"
    "\<not> py_in (name smoke_c2) (oracle_text smoke_c1)"
    "py_in (name smoke_c2) (oracle_text ex_namer)"
    by (simp_all add: py_in_def smoke_c1_def smoke_c2_def ex_namer_def sublist_code)
  show ?thesis
    using a by (simp add: calculate_synergy_score_def get_category_examples default_weights
      check_direct_reference_def DEFAULT_CONSTANT_C_def)
qed

section \<open>The claims about the detector\<close>

text \<open>
  Claim C10. When the ids of the cards are pairwise distinct, every interaction that
  \<open>detect_all\<close> returns has a source different from its target: the pairs are taken from
  two different places of the list. Ingesting the detected interactions into a graph
  without self-loops therefore leaves it without self-loops.
\<close>

theorem no_self_interactions:
  assumes "distinct (map card_id cs)"
  shows "(\<forall>i\<in>set (detect_all cs). source_id i \<noteq> target_id i)
       \<and> (no_self_loops g \<longrightarrow> no_self_loops (ingest g (detect_all cs)))"
proof -
  have 1: "\<forall>i\<in>set (detect_all cs). source_id i \<noteq> target_id i"
    using detect_all_ends[OF _ assms] by blast
  have 2: "no_self_loops g \<longrightarrow> no_self_loops (ingest g (detect_all cs))"
    using 1 by (simp add: no_self_loops_ingest)
  show ?thesis using 1 2 by blast
qed

theorem no_self_interactions_witness:
  "distinct (map card_id [smoke_c1, smoke_c2, smoke_c3])
   \<and> map (\<lambda>i. (source_id i, target_id i)) (detect_all [smoke_c1, smoke_c2, smoke_c3])
       = [(''c1'', ''c2''), (''c1'', ''c2''), (''c1'', ''c2''), (''c1'', ''c3''), (''c3'', ''c2'')]
   \<and> list_all (\<lambda>i. source_id i \<noteq> target_id i) (detect_all [smoke_c1, smoke_c2, smoke_c3])
   \<and> no_self_loops empty_graph
   \<and> no_self_loops (ingest empty_graph (detect_all [smoke_c1, smoke_c2, smoke_c3]))"
proof -
  have h: "distinct (map card_id [smoke_c1, smoke_c2, smoke_c3])"
    by (simp add: smoke_c1_def smoke_c2_def smoke_c3_def)
  have e: "no_self_loops empty_graph" by (simp add: no_self_loops_def empty_graph_def)
  have m: "map (\<lambda>i. (source_id i, target_id i)) (detect_all [smoke_c1, smoke_c2, smoke_c3])
       = [(''c1'', ''c2''), (''c1'', ''c2''), (''c1'', ''c2''), (''c1'', ''c3''), (''c3'', ''c2'')]"
    by code_simp
  from no_self_interactions[OF h, of empty_graph] show ?thesis
    using h e m by (simp add: list_all_iff)
qed

text \<open>
  Claim C5. Among cards of pairwise distinct ids, for two different cards \<open>s\<close> and
  \<open>t\<close> of the list: \<open>detect_all\<close> returns a MANA_ENABLES interaction from \<open>s\<close> to \<open>t\<close>
  exactly when \<open>s\<close> produces mana, \<open>t\<close> is not a land and the cost of \<open>t\<close> is at least 4,
  and the weight of every such interaction is the smaller of 0.4 + 0.05 times the cost
  of \<open>t\<close> and 0.8.
\<close>

theorem mana_enables_rule:
  assumes "distinct (map card_id cs)" and "s \<in> set cs" and "t \<in> set cs" and "s \<noteq> t"
  shows "((\<exists>i\<in>set (detect_all cs). interaction_type i = MANA_ENABLES
             \<and> source_id i = card_id s \<and> target_id i = card_id t)
          \<longleftrightarrow> produces_mana s \<and> \<not> is_land t \<and> 4 \<le> cmc t)
       \<and> (\<forall>i\<in>set (detect_all cs). interaction_type i = MANA_ENABLES
             \<and> source_id i = card_id s \<and> target_id i = card_id t
           \<longrightarrow> weight i = min (4/10 + cmc t * (5/100)) (8/10))"
proof -
  note k = detect_all_mana[OF assms]
  have 1: "(\<exists>i\<in>set (detect_all cs). interaction_type i = MANA_ENABLES
             \<and> source_id i = card_id s \<and> target_id i = card_id t)
          \<longleftrightarrow> produces_mana s \<and> \<not> is_land t \<and> 4 \<le> cmc t"
  proof
    assume "\<exists>i\<in>set (detect_all cs). interaction_type i = MANA_ENABLES
             \<and> source_id i = card_id s \<and> target_id i = card_id t"
    then obtain i where "i \<in> set (detect_all cs) \<and> interaction_type i = MANA_ENABLES
           \<and> source_id i = card_id s \<and> target_id i = card_id t" by blast
    then have "mana_rule s t" using k[of i] by blast
    then show "produces_mana s \<and> \<not> is_land t \<and> 4 \<le> cmc t" by (simp add: mana_rule_def)
  next
    assume "produces_mana s \<and> \<not> is_land t \<and> 4 \<le> cmc t"
    then have "mana_rule s t \<and> mana_interaction s t = mana_interaction s t"
      by (simp add: mana_rule_def)
    then have "mana_interaction s t \<in> set (detect_all cs) \<and> interaction_type (mana_interaction s t) = MANA_ENABLES
           \<and> source_id (mana_interaction s t) = card_id s \<and> target_id (mana_interaction s t) = card_id t"
      using k[of "mana_interaction s t"] by blast
    then show "\<exists>i\<in>set (detect_all cs). interaction_type i = MANA_ENABLES
             \<and> source_id i = card_id s \<and> target_id i = card_id t" by blast
  qed
  have 2: "\<forall>i\<in>set (detect_all cs). interaction_type i = MANA_ENABLES
             \<and> source_id i = card_id s \<and> target_id i = card_id t
           \<longrightarrow> weight i = min (4/10 + cmc t * (5/100)) (8/10)"
  proof (intro ballI impI)
    fix i assume "i \<in> set (detect_all cs)" and "interaction_type i = MANA_ENABLES
             \<and> source_id i = card_id s \<and> target_id i = card_id t"
    then have "i = mana_interaction s t" using k[of i] by blast
    then show "weight i = min (4/10 + cmc t * (5/100)) (8/10)" by simp
  qed
  show ?thesis using 1 2 by blast
qed

theorem mana_enables_rule_witness:
  "distinct (map card_id [smoke_c1, smoke_c2, smoke_c3])
   \<and> smoke_c1 \<in> set [smoke_c1, smoke_c2, smoke_c3]
   \<and> smoke_c3 \<in> set [smoke_c1, smoke_c2, smoke_c3]
   \<and> smoke_c1 \<noteq> smoke_c3
   \<and> produces_mana smoke_c1 \<and> \<not> is_land smoke_c3 \<and> cmc smoke_c3 = 4
   \<and> list_ex (\<lambda>i. interaction_type i = MANA_ENABLES \<and> source_id i = ''c1''
                   \<and> target_id i = ''c3'' \<and> weight i = 6/10)
        (detect_all [smoke_c1, smoke_c2, smoke_c3])
   \<and> cmc smoke_c2 = 3
   \<and> \<not> list_ex (\<lambda>i. interaction_type i = MANA_ENABLES \<and> source_id i = ''c1''
                     \<and> target_id i = ''c2'')
        (detect_all [smoke_c1, smoke_c2, smoke_c3])"
proof -
  let ?cs = "[smoke_c1, smoke_c2, smoke_c3]"
  have d: "distinct (map card_id ?cs)" by (simp add: smoke_c1_def smoke_c2_def smoke_c3_def)
  have m1: "smoke_c1 \<in> set ?cs" and m2: "smoke_c2 \<in> set ?cs" and m3: "smoke_c3 \<in> set ?cs"
    by simp_all
  have n13: "smoke_c1 \<noteq> smoke_c3" and n12: "smoke_c1 \<noteq> smoke_c2"
    by (simp_all add: smoke_c1_def smoke_c2_def smoke_c3_def)
  have p: "produces_mana smoke_c1" "\<not> is_land smoke_c3" by code_simp+
  have c: "cmc smoke_c3 = 4" "cmc smoke_c2 = 3" "card_id smoke_c1 = ''c1''"
    "card_id smoke_c2 = ''c2''" "card_id smoke_c3 = ''c3''"
    by (simp_all add: smoke_c1_def smoke_c2_def smoke_c3_def)
  from mana_enables_rule[OF d m1 m3 n13] mana_enables_rule[OF d m1 m2 n12]
  show ?thesis using d n13 p c by (auto simp: list_ex_iff)
qed

text \<open>
  Claim C3, as the code has it. For two different cards \<open>a\<close> and \<open>b\<close> of the list: when
  the text of \<open>a\<close> matches a sacrifice-outlet pattern and the text of \<open>b\<close> matches a
  death-trigger pattern, \<open>detect_all\<close> returns a DEATH_CHAIN interaction from \<open>a\<close> to \<open>b\<close>
  of weight 0.8; when \<open>b\<close> is moreover a creature (its type line holds \<open>Creature\<close>), it
  returns a SACRIFICE_OUTLET interaction from \<open>a\<close> to \<open>b\<close> of weight 0.7 as well.
\<close>

theorem sacrifice_synergy_rule:
  assumes "a \<in> set cs" and "b \<in> set cs" and "a \<noteq> b"
    and "any_search sacrifice_outlet_patterns (oracle_text a)"
    and "any_search death_trigger_patterns (oracle_text b)"
  shows "(\<exists>i\<in>set (detect_all cs). interaction_type i = DEATH_CHAIN
            \<and> source_id i = card_id a \<and> target_id i = card_id b \<and> weight i = 8/10)
       \<and> (is_creature b \<longrightarrow>
            (\<exists>i\<in>set (detect_all cs). interaction_type i = SACRIFICE_OUTLET
               \<and> source_id i = card_id a \<and> target_id i = card_id b \<and> weight i = 7/10))"
proof -
  have "death_chain a b \<in> set (detect_all cs)"
    using death_chain_emitted[OF assms(4,5)] sacrifice_in_pair
    by (intro detect_all_either[OF assms(1-3)]) blast+
  then have 1: "\<exists>i\<in>set (detect_all cs). interaction_type i = DEATH_CHAIN
            \<and> source_id i = card_id a \<and> target_id i = card_id b \<and> weight i = 8/10"
    by (intro bexI[of _ "death_chain a b"]) (simp_all add: death_chain_def)
  have 2: "\<exists>i\<in>set (detect_all cs). interaction_type i = SACRIFICE_OUTLET
               \<and> source_id i = card_id a \<and> target_id i = card_id b \<and> weight i = 7/10"
    if cr: "is_creature b"
  proof -
    have d: "has_death_trigger b" using assms(5) by (rule death_pattern_has_death_trigger)
    have "sacrifice_outlet a b \<in> set (detect_all cs)"
      using sacrifice_outlet_emitted[OF assms(4) d cr] sacrifice_in_pair
      by (intro detect_all_either[OF assms(1-3)]) blast+
    then show ?thesis
      by (intro bexI[of _ "sacrifice_outlet a b"]) (simp_all add: sacrifice_outlet_def)
  qed
  show ?thesis using 1 2 by blast
qed

theorem sacrifice_synergy_rule_witness:
  "smoke_c1 \<in> set [smoke_c1, smoke_c2, smoke_c3] \<and> smoke_c2 \<in> set [smoke_c1, smoke_c2, smoke_c3]
   \<and> smoke_c1 \<noteq> smoke_c2
   \<and> any_search sacrifice_outlet_patterns (oracle_text smoke_c1)
   \<and> any_search death_trigger_patterns (oracle_text smoke_c2)
   \<and> is_creature smoke_c2
   \<and> list_ex (\<lambda>i. interaction_type i = DEATH_CHAIN \<and> source_id i = ''c1''
                   \<and> target_id i = ''c2'' \<and> weight i = 8/10)
        (detect_all [smoke_c1, smoke_c2, smoke_c3])
   \<and> list_ex (\<lambda>i. interaction_type i = SACRIFICE_OUTLET \<and> source_id i = ''c1''
                   \<and> target_id i = ''c2'' \<and> weight i = 7/10)
        (detect_all [smoke_c1, smoke_c2, smoke_c3])"
proof -
  let ?cs = "[smoke_c1, smoke_c2, smoke_c3]"
  have m1: "smoke_c1 \<in> set ?cs" and m2: "smoke_c2 \<in> set ?cs" by simp_all
  have n: "smoke_c1 \<noteq> smoke_c2" by (simp add: smoke_c1_def smoke_c2_def)
  have o: "any_search sacrifice_outlet_patterns (oracle_text smoke_c1)" by code_simp
  have d: "any_search death_trigger_patterns (oracle_text smoke_c2)" by code_simp
  have c: "is_creature smoke_c2" by code_simp
  have ids: "card_id smoke_c1 = ''c1''" "card_id smoke_c2 = ''c2''"
    by (simp_all add: smoke_c1_def smoke_c2_def)
  from sacrifice_synergy_rule[OF m1 m2 n o d] show ?thesis
    using n o d c ids by (simp add: list_ex_iff)
qed

text \<open>
  Claim C3 as stated fails: the outlet of the smoke test matches a sacrifice-outlet
  pattern and the enchantment a death-trigger pattern, and the only interaction detected
  between them is the DEATH_CHAIN; there is no SACRIFICE_OUTLET, the enchantment not being
  a creature.
\<close>

theorem sacrifice_synergy_counterexample:
  "any_search sacrifice_outlet_patterns (oracle_text smoke_c1)
   \<and> any_search death_trigger_patterns (oracle_text ex_payoff)
   \<and> map (\<lambda>i. (source_id i, target_id i, interaction_type i, weight i))
        (detect_all [smoke_c1, ex_payoff])
      = [(''c1'', ''c5'', DEATH_CHAIN, 8/10)]
   \<and> \<not> list_ex (\<lambda>i. interaction_type i = SACRIFICE_OUTLET) (detect_all [smoke_c1, ex_payoff])"
  by code_simp

end
